theory Spec2Isabelle
  imports Complex_Main "HOL-Library.Word"
begin

section \<open>JavaScript values\<close>

text \<open>
  The component \<^verbatim>\<open>LatentRolloutVisualizer\<close> computes with JavaScript numbers. A number is
  modelled as a real or one of the three non-finite values; \<open>Undefined\<close> is what reading
  an array beyond its end gives. The sign of zero is not modelled: no operation below
  tells \<open>-0\<close> from \<open>+0\<close>.
\<close>

datatype jsval = Num real | PosInf | NegInf | NaN | Undefined

definition LATENT_DIM :: nat where "LATENT_DIM = 16"
definition IMG_H :: nat where "IMG_H = 96"
definition IMG_W :: nat where "IMG_W = 96"
definition SCALE :: nat where "SCALE = 4"
definition NUM_LAYERS :: nat where "NUM_LAYERS = 2"
definition HIDDEN_DIM :: nat where "HIDDEN_DIM = 128"

text \<open>\<^verbatim>\<open>xs[i]\<close>: reading beyond the end of an array gives \<^verbatim>\<open>undefined\<close>.\<close>

definition js_index :: "jsval list \<Rightarrow> nat \<Rightarrow> jsval" where
  "js_index xs i = (if i < length xs then xs ! i else Undefined)"

text \<open>
  \<^verbatim>\<open>next[idx] = value\<close> on an ordinary array: a write beyond the end extends the array,
  and the holes in between read as \<^verbatim>\<open>undefined\<close>.
\<close>

definition js_array_set :: "jsval list \<Rightarrow> nat \<Rightarrow> jsval \<Rightarrow> jsval list" where
  "js_array_set xs i v =
     (if i < length xs then xs[i := v]
      else xs @ replicate (i - length xs) Undefined @ [v])"

text \<open>
  \<^verbatim>\<open>r * 255\<close> for an element \<open>r\<close> of a \<^verbatim>\<open>Float32Array\<close>. A float32 has a 24-bit
  significand, so its product with 255 fits the 53 bits of a double and is exact.
\<close>

fun times255 :: "jsval \<Rightarrow> jsval" where
  "times255 (Num x) = Num (x * 255)"
| "times255 PosInf = PosInf"
| "times255 NegInf = NegInf"
| "times255 NaN = NaN"
| "times255 Undefined = NaN"

text \<open>\<^verbatim>\<open>Math.round\<close>: the nearest integer, a tie going towards \<open>+\<infinity>\<close>.\<close>

fun Math_round :: "jsval \<Rightarrow> jsval" where
  "Math_round (Num x) = Num (of_int \<lfloor>x + 1 / 2\<rfloor>)"
| "Math_round PosInf = PosInf"
| "Math_round NegInf = NegInf"
| "Math_round NaN = NaN"
| "Math_round Undefined = NaN"

text \<open>\<^verbatim>\<open>Math.min(a, y)\<close> and \<^verbatim>\<open>Math.max(a, y)\<close> for a finite constant \<open>a\<close>.\<close>

fun Math_min :: "real \<Rightarrow> jsval \<Rightarrow> jsval" where
  "Math_min a (Num x) = Num (min a x)"
| "Math_min a PosInf = Num a"
| "Math_min a NegInf = NegInf"
| "Math_min a NaN = NaN"
| "Math_min a Undefined = NaN"

fun Math_max :: "real \<Rightarrow> jsval \<Rightarrow> jsval" where
  "Math_max a (Num x) = Num (max a x)"
| "Math_max a PosInf = PosInf"
| "Math_max a NegInf = Num a"
| "Math_max a NaN = NaN"
| "Math_max a Undefined = NaN"

text \<open>
  The pixel buffer of an \<^verbatim>\<open>ImageData\<close> is a \<^verbatim>\<open>Uint8ClampedArray\<close>: a store converts
  the number with ECMAScript's \<^verbatim>\<open>ToUint8Clamp\<close> (\<^verbatim>\<open>NaN\<close> becomes 0, the value is
  clamped to 0..255 and rounded, a tie going to the even neighbour).
\<close>

type_synonym byte = "8 word"

definition round_half_even :: "real \<Rightarrow> int" where
  "round_half_even x =
     (let f = \<lfloor>x\<rfloor> in
      if x < of_int f + 1 / 2 then f
      else if of_int f + 1 / 2 < x then f + 1
      else if even f then f else f + 1)"

fun ToUint8Clamp :: "jsval \<Rightarrow> byte" where
  "ToUint8Clamp (Num x) = word_of_int (round_half_even (min (max x 0) 255))"
| "ToUint8Clamp PosInf = 255"
| "ToUint8Clamp NegInf = 0"
| "ToUint8Clamp NaN = 0"
| "ToUint8Clamp Undefined = 0"

text \<open>
  \<^verbatim>\<open>for (let i = lo; i < n; i++) body\<close>, the loop variable counting up and the body
  updating the state \<open>s\<close>.
\<close>

function for_loop :: "nat \<Rightarrow> nat \<Rightarrow> (nat \<Rightarrow> 's \<Rightarrow> 's) \<Rightarrow> 's \<Rightarrow> 's" where
  "for_loop i n body s = (if i < n then for_loop (Suc i) n body (body i s) else s)"
  by pat_completeness auto
termination
  by (relation "measure (\<lambda>(i, n, body, s). n - i)") auto

section \<open>Planar floats to interleaved bytes\<close>

text \<open>
  Lines 68 to 86 of \<^verbatim>\<open>runDecoder\<close>. \<^verbatim>\<open>createImageData\<close> gives a zero-filled buffer of
  \<open>w * h * 4\<close> bytes; the two nested iterations write the four bytes of every pixel. A write
  beyond the end of a typed array is ignored, which is what list update does.
\<close>

definition createImageData :: "nat \<Rightarrow> nat \<Rightarrow> byte list" where
  "createImageData w h = replicate (w * h * 4) 0"

definition write_pixel :: "jsval list \<Rightarrow> nat \<Rightarrow> nat \<Rightarrow> nat \<Rightarrow> byte list \<Rightarrow> byte list" where
  "write_pixel data planeSize y x rgba =
     (let idxHW = y * IMG_W + x;
          r = js_index data (0 * planeSize + idxHW);
          g = js_index data (1 * planeSize + idxHW);
          b = js_index data (2 * planeSize + idxHW);
          idxRGBA = idxHW * 4
      in rgba[idxRGBA + 0 := ToUint8Clamp (Math_max 0 (Math_min 255 (Math_round (times255 r)))),
              idxRGBA + 1 := ToUint8Clamp (Math_max 0 (Math_min 255 (Math_round (times255 g)))),
              idxRGBA + 2 := ToUint8Clamp (Math_max 0 (Math_min 255 (Math_round (times255 b)))),
              idxRGBA + 3 := 255])"

definition planar_to_rgba :: "jsval list \<Rightarrow> byte list" where
  "planar_to_rgba data =
     (let rgba = createImageData IMG_W IMG_H;
          planeSize = IMG_H * IMG_W
      in for_loop 0 IMG_H (\<lambda>y. for_loop 0 IMG_W (\<lambda>x. write_pixel data planeSize y x)) rgba)"

text \<open>The byte the loop body stores for a channel value \<open>r\<close>.\<close>

definition channel_byte :: "jsval \<Rightarrow> byte" where
  "channel_byte r = ToUint8Clamp (Math_max 0 (Math_min 255 (Math_round (times255 r))))"

text \<open>Pixel \<open>q\<close> of the buffer holds the converted values of the three planes, and alpha 255.\<close>

definition pixel_done :: "jsval list \<Rightarrow> byte list \<Rightarrow> nat \<Rightarrow> bool" where
  "pixel_done data rgba q \<longleftrightarrow>
     rgba ! (q * 4) = channel_byte (js_index data q) \<and>
     rgba ! (q * 4 + 1) = channel_byte (js_index data (IMG_H * IMG_W + q)) \<and>
     rgba ! (q * 4 + 2) = channel_byte (js_index data (2 * (IMG_H * IMG_W) + q)) \<and>
     rgba ! (q * 4 + 3) = 255"

section \<open>Tensors and inference sessions\<close>

text \<open>
  An \<^verbatim>\<open>ort.Tensor\<close> is its element type, its data and its dimensions. A session's
  \<^verbatim>\<open>run\<close> takes the named input tensors in the order the object literal lists them and
  settles later, either rejected (\<open>Inl\<close> of \<^verbatim>\<open>String(e)\<close>) or fulfilled with the named
  output tensors. A session is a function of its inputs (fixed weights).
\<close>

record tensor =
  ttype :: string
  tdata :: "jsval list"
  tdims :: "nat list"

type_synonym feeds = "(string \<times> tensor) list"
type_synonym outputs = "(string \<times> tensor) list"
type_synonym session = "feeds \<Rightarrow> string + outputs"

text \<open>
  Storing a number into a \<^verbatim>\<open>Float32Array\<close> rounds it to the nearest float32 (and
  \<^verbatim>\<open>undefined\<close> to \<^verbatim>\<open>NaN\<close>). That rounding is the parameter \<open>fr\<close> of everything that
  builds an input tensor; the theorems hold for every such function.
  Lines 54 to 57 and 136 to 139: a zero-filled array of \<open>LATENT_DIM\<close> floats, then
  \<^verbatim>\<open>zData[i] = latent[i]\<close> for every index.
\<close>

definition latent_to_f32 :: "(jsval \<Rightarrow> jsval) \<Rightarrow> jsval list \<Rightarrow> jsval list" where
  "latent_to_f32 fr latent =
     for_loop 0 LATENT_DIM (\<lambda>i zData. zData[i := fr (js_index latent i)])
       (replicate LATENT_DIM (Num 0))"

definition float32_tensor :: "jsval list \<Rightarrow> nat list \<Rightarrow> tensor" where
  "float32_tensor xs ds = \<lparr>ttype = ''float32'', tdata = xs, tdims = ds\<rparr>"

text \<open>
  \<^verbatim>\<open>new ort.Tensor("float32", data, dims)\<close>: the constructor throws when the number of
  elements the dimensions ask for is not the length of the data (the message also names
  the two numbers). The copy of the latent always has \<open>LATENT_DIM\<close> elements, so the
  tensor \<open>z\<close> of \<^verbatim>\<open>runDecoder\<close> is always built; the stored recurrent arrays are
  whatever the dynamics model returned last.
\<close>

definition Tensor_size_error :: string where
  "Tensor_size_error = ''Error: Tensor size does not match data length''"

definition ort_Tensor :: "jsval list \<Rightarrow> nat list \<Rightarrow> string + tensor" where
  "ort_Tensor xs ds =
     (if prod_list ds = length xs then Inr (float32_tensor xs ds) else Inl Tensor_size_error)"

section \<open>The component's state\<close>

text \<open>
  The seven \<^verbatim>\<open>useState\<close> cells, the pixels of the small canvas (the visible canvas is
  redrawn from it in the same continuation, lines 90 to 105), and the promises that are
  in flight: each holds the result its \<^verbatim>\<open>run\<close> call will settle with, in the order the
  calls were issued. \<open>depsChanged\<close> records that \<^verbatim>\<open>decoderSession\<close> or \<^verbatim>\<open>latent\<close> was
  set since the last commit, which is when React runs the decode effect (its dependency
  list is \<^verbatim>\<open>[decoderSession, latent]\<close>, and every \<^verbatim>\<open>setLatent\<close> below passes a fresh
  array). The two canvas refs are set from the first commit on.
\<close>

record state =
  decoderSession :: "session option"
  lstmSession :: "session option"
  loading :: bool
  error :: "string option"
  latent :: "jsval list"
  hData :: "jsval list option"
  cData :: "jsval list option"
  smallCanvas :: "byte list"
  depsChanged :: bool
  decodesInFlight :: "(string + outputs) list"
  stepsInFlight :: "(string + outputs) list"

definition setDecoderSession :: "session \<Rightarrow> state \<Rightarrow> state" where
  "setDecoderSession dec s = s\<lparr>decoderSession := Some dec, depsChanged := True\<rparr>"

definition setLstmSession :: "session \<Rightarrow> state \<Rightarrow> state" where
  "setLstmSession lstm s = s\<lparr>lstmSession := Some lstm\<rparr>"

definition setLoading :: "bool \<Rightarrow> state \<Rightarrow> state" where
  "setLoading b s = s\<lparr>loading := b\<rparr>"

definition setError :: "string \<Rightarrow> state \<Rightarrow> state" where
  "setError e s = s\<lparr>error := Some e\<rparr>"

definition setLatent :: "jsval list \<Rightarrow> state \<Rightarrow> state" where
  "setLatent v s = s\<lparr>latent := v, depsChanged := True\<rparr>"

definition setHData :: "jsval list option \<Rightarrow> state \<Rightarrow> state" where
  "setHData h s = s\<lparr>hData := h\<rparr>"

definition setCData :: "jsval list option \<Rightarrow> state \<Rightarrow> state" where
  "setCData c s = s\<lparr>cData := c\<rparr>"

text \<open>The state of the first render, before anything has happened.\<close>

definition initial_state :: state where
  "initial_state =
     \<lparr>decoderSession = None, lstmSession = None, loading = True, error = None,
      latent = replicate LATENT_DIM (Num 0), hData = None, cData = None,
      smallCanvas = createImageData IMG_W IMG_H, depsChanged = False,
      decodesInFlight = [], stepsInFlight = []\<rparr>"

text \<open>What reading \<^verbatim>\<open>.data\<close> of a missing output raises, as \<^verbatim>\<open>String(e)\<close>.\<close>

definition TypeError_undefined :: string where
  "TypeError_undefined = ''TypeError: Cannot read properties of undefined (reading data)''"

section \<open>Loading the models\<close>

text \<open>\<^verbatim>\<open>loadModels\<close> after its \<^verbatim>\<open>await\<close>: both sessions are stored, or the error is.\<close>

definition loadModels_fulfilled :: "session \<Rightarrow> session \<Rightarrow> state \<Rightarrow> state" where
  "loadModels_fulfilled dec lstm s =
     setLoading False (setLstmSession lstm (setDecoderSession dec s))"

definition loadModels_rejected :: "string \<Rightarrow> state \<Rightarrow> state" where
  "loadModels_rejected e s = setLoading False (setError e s)"

section \<open>Decoding\<close>

text \<open>
  \<^verbatim>\<open>runDecoder\<close> up to its \<^verbatim>\<open>await\<close>: nothing without a decoder session, otherwise the
  latent is copied into the tensor \<open>z\<close> of shape \<open>[1, LATENT_DIM]\<close> and the run is started.
\<close>

definition runDecoder :: "(jsval \<Rightarrow> jsval) \<Rightarrow> state \<Rightarrow> state" where
  "runDecoder fr s =
     (case decoderSession s of
        None \<Rightarrow> s
      | Some dec \<Rightarrow>
          (let zData = latent_to_f32 fr (latent s);
               zTensor = float32_tensor zData [1, LATENT_DIM]
           in s\<lparr>decodesInFlight := decodesInFlight s @ [dec [(''z'', zTensor)]]\<rparr>))"

text \<open>
  \<^verbatim>\<open>runDecoder\<close> after its \<^verbatim>\<open>await\<close>: a rejected run and a missing \<^verbatim>\<open>x_recon\<close> end in
  the \<^verbatim>\<open>catch\<close>; otherwise the converted frame is put on the canvas. Nothing here looks
  at the current latent or at what has been requested since.
\<close>

definition runDecoder_settled :: "string + outputs \<Rightarrow> state \<Rightarrow> state" where
  "runDecoder_settled r s =
     (case r of
        Inl e \<Rightarrow> setError e s
      | Inr outs \<Rightarrow>
          (case map_of outs ''x_recon'' of
             None \<Rightarrow> setError TypeError_undefined s
           | Some xRecon \<Rightarrow> s\<lparr>smallCanvas := planar_to_rgba (tdata xRecon)\<rparr>))"

text \<open>The effect of line 50: after a commit in which a dependency changed, decode.\<close>

definition commit :: "(jsval \<Rightarrow> jsval) \<Rightarrow> state \<Rightarrow> state" where
  "commit fr s = (if depsChanged s then runDecoder fr (s\<lparr>depsChanged := False\<rparr>) else s)"

section \<open>The handlers\<close>

definition handleSliderChange :: "nat \<Rightarrow> jsval \<Rightarrow> state \<Rightarrow> state" where
  "handleSliderChange idx v s = setLatent (js_array_set (latent s) idx v) s"

definition resetLatentAndHidden :: "state \<Rightarrow> state" where
  "resetLatentAndHidden s =
     setCData None (setHData None (setLatent (replicate LATENT_DIM (Num 0)) s))"

text \<open>
  Lines 136 to 162 of \<^verbatim>\<open>stepWithAction\<close>: the four input tensors, built in the order of
  the source; the first constructor that throws ends the \<^verbatim>\<open>try\<close> block. Both arrays are
  replaced by zeros as soon as one of them is \<^verbatim>\<open>null\<close>.
\<close>

definition lstm_feeds ::
  "(jsval \<Rightarrow> jsval) \<Rightarrow> jsval list \<Rightarrow> jsval \<Rightarrow> jsval list option \<Rightarrow> jsval list option
     \<Rightarrow> string + feeds" where
  "lstm_feeds fr z actionVal h c =
     (let zArr = latent_to_f32 fr z in
      case ort_Tensor zArr [1, LATENT_DIM] of
        Inl e \<Rightarrow> Inl e
      | Inr latentTensor \<Rightarrow>
          (case ort_Tensor [fr actionVal] [1, 1] of
             Inl e \<Rightarrow> Inl e
           | Inr actionTensor \<Rightarrow>
               (let (hArr, cArr) =
                      (case (h, c) of
                         (Some h', Some c') \<Rightarrow> (h', c')
                       | _ \<Rightarrow> (replicate (NUM_LAYERS * 1 * HIDDEN_DIM) (Num 0),
                                replicate (NUM_LAYERS * 1 * HIDDEN_DIM) (Num 0)))
                in case ort_Tensor hArr [NUM_LAYERS, 1, HIDDEN_DIM] of
                     Inl e \<Rightarrow> Inl e
                   | Inr hTensor \<Rightarrow>
                       (case ort_Tensor cArr [NUM_LAYERS, 1, HIDDEN_DIM] of
                          Inl e \<Rightarrow> Inl e
                        | Inr cTensor \<Rightarrow>
                            Inr [(''latent'', latentTensor), (''action'', actionTensor),
                                 (''h0'', hTensor), (''c0'', cTensor)]))))"

text \<open>
  \<^verbatim>\<open>stepWithAction\<close> up to its \<^verbatim>\<open>await\<close>: nothing without the session; when a tensor
  constructor throws, the \<^verbatim>\<open>catch\<close> reports it at once and no run is started; else the
  run starts.
\<close>

definition stepWithAction :: "(jsval \<Rightarrow> jsval) \<Rightarrow> jsval \<Rightarrow> state \<Rightarrow> state" where
  "stepWithAction fr actionVal s =
     (case lstmSession s of
        None \<Rightarrow> s
      | Some lstm \<Rightarrow>
          (case lstm_feeds fr (latent s) actionVal (hData s) (cData s) of
             Inl e \<Rightarrow> setError e s
           | Inr fs \<Rightarrow> s\<lparr>stepsInFlight := stepsInFlight s @ [lstm fs]\<rparr>))"

text \<open>
  The stored recurrent arrays fit the shape \<open>[NUM_LAYERS, 1, HIDDEN_DIM]\<close>, or are not
  both there. They fit as long as the dynamics model keeps to the shapes of \<open>h1\<close> and
  \<open>c1\<close>.
\<close>

definition state_fits :: "jsval list option \<Rightarrow> jsval list option \<Rightarrow> bool" where
  "state_fits h c =
     (case (h, c) of
        (Some h', Some c') \<Rightarrow>
          length h' = NUM_LAYERS * 1 * HIDDEN_DIM \<and> length c' = NUM_LAYERS * 1 * HIDDEN_DIM
      | _ \<Rightarrow> True)"

text \<open>
  \<^verbatim>\<open>stepWithAction\<close> after its \<^verbatim>\<open>await\<close> (lines 164 to 178). The three setters run one
  after the other; reading \<^verbatim>\<open>.data\<close> of an output that is missing throws, and the
  \<^verbatim>\<open>catch\<close> keeps what was set before.
\<close>

definition stepWithAction_settled :: "string + outputs \<Rightarrow> state \<Rightarrow> state" where
  "stepWithAction_settled r s =
     (case r of
        Inl e \<Rightarrow> setError e s
      | Inr outs \<Rightarrow>
          (case map_of outs ''next_latent'' of
             None \<Rightarrow> setError TypeError_undefined s
           | Some nextLatentTensor \<Rightarrow>
               (let s1 = setLatent (tdata nextLatentTensor) s in
                case map_of outs ''h1'' of
                  None \<Rightarrow> setError TypeError_undefined s1
                | Some h1Tensor \<Rightarrow>
                    (let s2 = setHData (Some (tdata h1Tensor)) s1 in
                     case map_of outs ''c1'' of
                       None \<Rightarrow> setError TypeError_undefined s2
                     | Some c1Tensor \<Rightarrow> setCData (Some (tdata c1Tensor)) s2))))"




definition disabled :: "state \<Rightarrow> bool" where
  "disabled s \<longleftrightarrow> loading s \<or> decoderSession s = None \<or> lstmSession s = None"

section \<open>The sliders\<close>

text \<open>
  Lines 219 to 229: each slider is a range input with \<^verbatim>\<open>min={-3} max={3} step={0.05}\<close>.
  Whatever position the operator asks for, the value the control reports is clamped to
  \<open>[min, max]\<close> and lies on the step grid based at \<open>min\<close> (a tie going up);
  \<^verbatim>\<open>onChange\<close> passes that number to \<^verbatim>\<open>handleSliderChange\<close>.
\<close>

definition slider_min :: real where "slider_min = - 3"
definition slider_max :: real where "slider_max = 3"
definition slider_step :: real where "slider_step = 5 / 100"

definition range_value :: "real \<Rightarrow> real" where
  "range_value raw =
     (let v = min slider_max (max slider_min raw)
      in slider_min + slider_step * of_int \<lfloor>(v - slider_min) / slider_step + 1 / 2\<rfloor>)"

section \<open>Events\<close>

text \<open>
  Everything that can happen to the mounted component. A handler or a continuation runs
  to completion, then React commits and runs the effect; only then is the next event
  taken. An event that cannot happen in a state (a slider that is not rendered, a
  disabled button, a promise that is not in flight, a second model load) leaves it as it is.
\<close>

datatype event =
    ModelsLoaded session session
  | ModelsFailed string
  | SliderInput nat real
  | ActionLeft
  | ActionRight
  | ResetClick
  | DecodeSettled nat
  | StepSettled nat

definition remove_nth :: "nat \<Rightarrow> 'a list \<Rightarrow> 'a list" where
  "remove_nth k xs = take k xs @ drop (Suc k) xs"

fun fire :: "(jsval \<Rightarrow> jsval) \<Rightarrow> event \<Rightarrow> state \<Rightarrow> state" where
  "fire fr (ModelsLoaded dec lstm) s =
     (if loading s then commit fr (loadModels_fulfilled dec lstm s) else s)"
| "fire fr (ModelsFailed e) s =
     (if loading s then commit fr (loadModels_rejected e s) else s)"
| "fire fr (SliderInput i raw) s =
     (if i < length (latent s)
      then commit fr (handleSliderChange i (Num (range_value raw)) s) else s)"
| "fire fr ActionLeft s =
     (if disabled s then s else commit fr (stepWithAction fr (Num 0) s))"
| "fire fr ActionRight s =
     (if disabled s then s else commit fr (stepWithAction fr (Num 1) s))"
| "fire fr ResetClick s = commit fr (resetLatentAndHidden s)"
| "fire fr (DecodeSettled k) s =
     (if k < length (decodesInFlight s)
      then commit fr (runDecoder_settled (decodesInFlight s ! k)
             (s\<lparr>decodesInFlight := remove_nth k (decodesInFlight s)\<rparr>))
      else s)"
| "fire fr (StepSettled k) s =
     (if k < length (stepsInFlight s)
      then commit fr (stepWithAction_settled (stepsInFlight s ! k)
             (s\<lparr>stepsInFlight := remove_nth k (stepsInFlight s)\<rparr>))
      else s)"

definition run_events :: "(jsval \<Rightarrow> jsval) \<Rightarrow> event list \<Rightarrow> state \<Rightarrow> state" where
  "run_events fr evs s = fold (fire fr) evs s"

section \<open>Example sessions\<close>

text \<open>
  Concrete sessions on which the theorems below are instantiated. \<open>fround_exact\<close> is a
  float32 store that finds every value representable. \<open>plane_decoder\<close> paints the whole
  frame with the first latent component. \<open>mock_lstm\<close> is the mocked dynamics model of
  the end-to-end scenario: it answers the cold-start call for action 0 on the zero latent
  and rejects every other call.
\<close>

definition fround_exact :: "jsval \<Rightarrow> jsval" where
  "fround_exact v = (case v of Undefined \<Rightarrow> NaN | _ \<Rightarrow> v)"

definition plane_decoder :: session where
  "plane_decoder fs =
     (case map_of fs ''z'' of
        None \<Rightarrow> Inl ''input z is missing''
      | Some z \<Rightarrow>
          Inr [(''x_recon'',
                float32_tensor (replicate (3 * IMG_H * IMG_W) (js_index (tdata z) 0))
                  [1, 3, IMG_H, IMG_W])])"

definition mock_lstm :: session where
  "mock_lstm fs =
     (if fs = [(''latent'', float32_tensor (replicate 16 (Num 0)) [1, 16]),
               (''action'', float32_tensor [Num 0] [1, 1]),
               (''h0'', float32_tensor (replicate 256 (Num 0)) [2, 1, 128]),
               (''c0'', float32_tensor (replicate 256 (Num 0)) [2, 1, 128])]
      then Inr [(''next_latent'', float32_tensor (Num 1 # replicate 15 (Num 0)) [1, 16]),
                (''h1'', float32_tensor (replicate 256 (Num 1)) [2, 1, 128]),
                (''c1'', float32_tensor (replicate 256 (Num 1)) [2, 1, 128])]
      else Inl ''unexpected call'')"

definition failing_lstm :: session where
  "failing_lstm fs = Inl ''Error: invalid input shape''"

text \<open>A dynamics model whose next latent leaves the slider range.\<close>

definition far_lstm :: session where
  "far_lstm fs =
     Inr [(''next_latent'', float32_tensor (replicate 16 (Num 5)) [1, 16]),
          (''h1'', float32_tensor (replicate 256 (Num 0)) [2, 1, 128]),
          (''c1'', float32_tensor (replicate 256 (Num 0)) [2, 1, 128])]"

text \<open>The component once both models have loaded and the first decode has been drawn.\<close>

definition ready_state :: "session \<Rightarrow> session \<Rightarrow> state" where
  "ready_state dec lstm =
     run_events fround_exact [ModelsLoaded dec lstm, DecodeSettled 0] initial_state"

text \<open>
  Two slider edits in a row, the first to 1 and the second to \<open>1/2\<close>; the decode of the
  second settles first, the decode of the first settles last.
\<close>

definition overlap_issued :: state where
  "overlap_issued =
     run_events fround_exact [SliderInput 0 1, SliderInput 0 (1 / 2)]
       (ready_state plane_decoder mock_lstm)"

definition overlap_final :: state where
  "overlap_final = run_events fround_exact [DecodeSettled 1, DecodeSettled 0] overlap_issued"

text \<open>
  The end-to-end scenario: from the ready component with the mocked dynamics model, the
  operator clicks Left, then the call settles. And a click on the model whose next latent
  is out of the slider range.
\<close>

definition scenario_issued :: state where
  "scenario_issued = fire fround_exact ActionLeft (ready_state plane_decoder mock_lstm)"

definition scenario_final :: state where
  "scenario_final = fire fround_exact (StepSettled 0) scenario_issued"

definition far_issued :: state where
  "far_issued = fire fround_exact ActionRight (ready_state plane_decoder far_lstm)"


text \<open>The events by which the operator asks for an edit, a step or a reset.\<close>

fun is_request :: "event \<Rightarrow> bool" where
  "is_request (SliderInput i raw) = True"
| "is_request ActionLeft = True"
| "is_request ActionRight = True"
| "is_request ResetClick = True"
| "is_request (ModelsLoaded dec lstm) = False"
| "is_request (ModelsFailed e) = False"
| "is_request (DecodeSettled k) = False"
| "is_request (StepSettled k) = False"

text \<open>Nobody has asked for anything yet: the latent is zero, there is no recurrent state.\<close>

definition untouched :: "state \<Rightarrow> bool" where
  "untouched s \<longleftrightarrow>
     latent s = replicate 16 (Num 0) \<and> hData s = None \<and> cData s = None \<and> stepsInFlight s = []"

section \<open>Iteration\<close>

lemma for_loop_invariant:
  assumes "I i s" and "i \<le> n"
    and "\<And>j t. i \<le> j \<Longrightarrow> j < n \<Longrightarrow> I j t \<Longrightarrow> I (Suc j) (body j t)"
  shows "I n (for_loop i n body s)"
  using assms
proof (induction i n body s rule: for_loop.induct)
  case (1 i n body s)
  show ?case
  proof (cases "i < n")
    case True
    have "I (Suc i) (body i s)" using 1(2,4) True by simp
    moreover have "Suc i \<le> n" using True by simp
    moreover have "\<And>j t. Suc i \<le> j \<Longrightarrow> j < n \<Longrightarrow> I j t \<Longrightarrow> I (Suc j) (body j t)"
      using 1(4) by simp
    ultimately have "I n (for_loop (Suc i) n body (body i s))"
      using 1(1) True by blast
    then show ?thesis using True by simp
  next
    case False
    then have "i = n" using 1(3) by simp
    then show ?thesis using 1(2) by simp
  qed
qed

text \<open>The copy loop fills every slot: the tensor data are the rounded latent, index by index.\<close>

lemma latent_to_f32_map:
  "latent_to_f32 fr z = map (\<lambda>i. fr (js_index z i)) [0..<LATENT_DIM]"
proof -
  define I where
    "I = (\<lambda>n (t :: jsval list). length t = LATENT_DIM \<and> (\<forall>j < n. t ! j = fr (js_index z j)))"
  have "I LATENT_DIM (latent_to_f32 fr z)"
    unfolding latent_to_f32_def
  proof (rule for_loop_invariant)
    show "I 0 (replicate LATENT_DIM (Num 0))" by (simp add: I_def)
    show "0 \<le> LATENT_DIM" by simp
  next
    fix j t assume "j < LATENT_DIM" and "I j t"
    then show "I (Suc j) (t[j := fr (js_index z j)])"
      by (auto simp: I_def less_Suc_eq nth_list_update)
  qed
  then show ?thesis
    by (intro nth_equalityI) (simp_all add: I_def)
qed

lemma latent_to_f32_full:
  "length z = LATENT_DIM \<Longrightarrow> latent_to_f32 fr z = map fr z"
  by (simp add: latent_to_f32_map js_index_def list_eq_iff_nth_eq)

section \<open>The converted frame\<close>

lemma write_pixel_length: "length (write_pixel data P y x rgba) = length rgba"
  by (simp add: write_pixel_def Let_def)

lemma write_pixel_done:
  assumes "(y * IMG_W + x) * 4 + 3 < length rgba"
  shows "pixel_done data (write_pixel data (IMG_H * IMG_W) y x rgba) (y * IMG_W + x)"
  using assms by (simp add: pixel_done_def write_pixel_def Let_def channel_byte_def)

lemma write_pixel_other:
  assumes "q \<noteq> y * IMG_W + x" and "pixel_done data rgba q"
  shows "pixel_done data (write_pixel data P y x rgba) q"
proof -
  have "q * 4 + k \<noteq> (y * IMG_W + x) * 4 + j" if "k < 4" "j < 4" for k j
    using assms(1) that by arith
  from this[of 0 0] this[of 0 1] this[of 0 2] this[of 0 3]
       this[of 1 0] this[of 1 1] this[of 1 2] this[of 1 3]
       this[of 2 0] this[of 2 1] this[of 2 2] this[of 2 3]
       this[of 3 0] this[of 3 1] this[of 3 2] this[of 3 3]
  show ?thesis using assms(2)
    by (simp add: pixel_done_def write_pixel_def Let_def)
qed

text \<open>One pass of the inner loop completes row \<open>y\<close> and keeps the rows above it.\<close>

lemma row_loop:
  assumes len: "length rgba = IMG_W * IMG_H * 4" and y: "y < IMG_H"
    and prev: "\<forall>q < y * IMG_W. pixel_done data rgba q"
  shows "length (for_loop 0 IMG_W (\<lambda>x. write_pixel data (IMG_H * IMG_W) y x) rgba)
           = IMG_W * IMG_H * 4 \<and>
         (\<forall>q < Suc y * IMG_W.
            pixel_done data (for_loop 0 IMG_W (\<lambda>x. write_pixel data (IMG_H * IMG_W) y x) rgba) q)"
proof -
  define I where
    "I = (\<lambda>x t. length t = IMG_W * IMG_H * 4 \<and> (\<forall>q < y * IMG_W + x. pixel_done data t q))"
  have "I IMG_W (for_loop 0 IMG_W (\<lambda>x. write_pixel data (IMG_H * IMG_W) y x) rgba)"
  proof (rule for_loop_invariant)
    show "I 0 rgba" using len prev by (simp add: I_def)
    show "0 \<le> IMG_W" by simp
  next
    fix j t assume j: "j < IMG_W" and inv: "I j t"
    have "Suc y * IMG_W \<le> IMG_H * IMG_W" using y by (simp del: mult_Suc)
    then have "y * IMG_W + j < IMG_W * IMG_H" using j by (simp add: mult.commute)
    then have bound: "(y * IMG_W + j) * 4 + 3 < length t" using inv by (simp add: I_def)
    show "I (Suc j) (write_pixel data (IMG_H * IMG_W) y j t)"
      unfolding I_def
    proof (intro conjI allI impI)
      show "length (write_pixel data (IMG_H * IMG_W) y j t) = IMG_W * IMG_H * 4"
        using inv by (simp add: write_pixel_length I_def)
    next
      fix q assume "q < y * IMG_W + Suc j"
      then consider "q = y * IMG_W + j" | "q < y * IMG_W + j" by linarith
      then show "pixel_done data (write_pixel data (IMG_H * IMG_W) y j t) q"
      proof cases
        case 1
        then show ?thesis using write_pixel_done[OF bound] by simp
      next
        case 2
        then have "pixel_done data t q" using inv by (simp add: I_def)
        then show ?thesis using 2 by (intro write_pixel_other) simp_all
      qed
    qed
  qed
  then show ?thesis by (simp add: I_def add.commute)
qed

lemma planar_to_rgba_pixels:
  "length (planar_to_rgba data) = IMG_W * IMG_H * 4 \<and>
   (\<forall>q < IMG_H * IMG_W. pixel_done data (planar_to_rgba data) q)"
proof -
  define J where
    "J = (\<lambda>y t. length t = IMG_W * IMG_H * 4 \<and> (\<forall>q < y * IMG_W. pixel_done data t q))"
  have "J IMG_H (for_loop 0 IMG_H
          (\<lambda>y. for_loop 0 IMG_W (\<lambda>x. write_pixel data (IMG_H * IMG_W) y x))
          (createImageData IMG_W IMG_H))"
  proof (rule for_loop_invariant)
    show "J 0 (createImageData IMG_W IMG_H)" by (simp add: J_def createImageData_def)
    show "0 \<le> IMG_H" by simp
  next
    fix j t assume "j < IMG_H" and "J j t"
    then show "J (Suc j) (for_loop 0 IMG_W (\<lambda>x. write_pixel data (IMG_H * IMG_W) j x) t)"
      unfolding J_def using row_loop[of t j data] by blast
  qed
  then show ?thesis by (simp add: J_def planar_to_rgba_def Let_def)
qed

lemma planar_to_rgba_channel:
  assumes "p < IMG_H * IMG_W" and "c < 3"
  shows "planar_to_rgba data ! (p * 4 + c) = channel_byte (js_index data (c * (IMG_H * IMG_W) + p))"
proof -
  have d: "pixel_done data (planar_to_rgba data) p"
    using planar_to_rgba_pixels assms(1) by blast
  from assms(2) consider "c = 0" | "c = 1" | "c = 2" by linarith
  then show ?thesis
    using d by cases (simp_all add: pixel_done_def)
qed

lemma planar_to_rgba_alpha:
  assumes "p < IMG_H * IMG_W"
  shows "planar_to_rgba data ! (p * 4 + 3) = 255"
  using planar_to_rgba_pixels assms unfolding pixel_done_def by blast

lemma round_half_even_of_int: "round_half_even (of_int k) = k"
  by (simp add: round_half_even_def Let_def)

lemma channel_byte_Num:
  "uint (channel_byte (Num v)) = max 0 (min 255 (round (v * 255)))"
proof -
  define k :: int where "k = max 0 (min 255 \<lfloor>v * 255 + 1 / 2\<rfloor>)"
  have k: "0 \<le> k" "k \<le> 255" by (simp_all add: k_def)
  have "max 0 (min 255 (real_of_int \<lfloor>v * 255 + 1 / 2\<rfloor>)) = of_int k"
    unfolding k_def by (simp add: max_def min_def)
  moreover have "min (max (real_of_int k) 0) 255 = of_int k"
    using k by (simp add: max_def min_def)
  ultimately have "channel_byte (Num v) = word_of_int k"
    by (simp add: channel_byte_def round_half_even_of_int)
  moreover have "uint (word_of_int k :: byte) = k"
    using k by (simp add: uint_word_of_int take_bit_int_eq_self)
  ultimately show ?thesis by (simp add: k_def round_def)
qed

text \<open>A value that is not a finite number: \<open>+\<infinity>\<close> saturates, the others give 0.\<close>

lemma channel_byte_nonfinite:
  "channel_byte PosInf = 255" "channel_byte NegInf = 0"
  "channel_byte NaN = 0" "channel_byte Undefined = 0"
  by (simp_all add: channel_byte_def round_half_even_def)

lemma channel_byte_boundary:
  "channel_byte (Num (- (1 / 10))) = 0" "channel_byte (Num 0) = 0"
  "channel_byte (Num (1 / 2)) = 128" "channel_byte (Num 1) = 255"
  "channel_byte (Num (11 / 10)) = 255"
  by (simp_all add: channel_byte_def round_half_even_def)

section \<open>State after a handler, a commit, a settled call\<close>

lemmas setter_defs = setDecoderSession_def setLstmSession_def setLoading_def setError_def
  setLatent_def setHData_def setCData_def

lemma remove_nth_last: "remove_nth (length xs) (xs @ [x]) = xs"
  by (simp add: remove_nth_def)

lemma remove_nth_before: "i < k \<Longrightarrow> k < length xs \<Longrightarrow> remove_nth k xs ! i = xs ! i"
  by (simp add: remove_nth_def nth_append)

lemma remove_nth_length: "k < length xs \<Longrightarrow> length (remove_nth k xs) = length xs - 1"
  by (simp add: remove_nth_def)

lemma float32_tensor_sel:
  "tdata (float32_tensor xs ds) = xs" "tdims (float32_tensor xs ds) = ds"
  by (simp_all add: float32_tensor_def)

lemma tensor_data_full:
  "length z = 16 \<Longrightarrow> map (\<lambda>i. fr (js_index z i)) [0..<16] = map fr z"
  by (simp add: js_index_def list_eq_iff_nth_eq)

text \<open>A commit touches nothing but the decodes in flight.\<close>

lemma commit_fields:
  "latent (commit fr s) = latent s" "hData (commit fr s) = hData s" "cData (commit fr s) = cData s"
  "error (commit fr s) = error s" "stepsInFlight (commit fr s) = stepsInFlight s"
  "decoderSession (commit fr s) = decoderSession s" "lstmSession (commit fr s) = lstmSession s"
  "loading (commit fr s) = loading s" "smallCanvas (commit fr s) = smallCanvas s"
  "depsChanged (commit fr s) = False"
  by (simp_all add: commit_def runDecoder_def Let_def split: option.splits)

lemma commit_decodes:
  "decodesInFlight (commit fr s) =
     (case (depsChanged s, decoderSession s) of
        (True, Some dec) \<Rightarrow> decodesInFlight s @
           [dec [(''z'', float32_tensor (map (\<lambda>i. fr (js_index (latent s) i)) [0..<16]) [1, 16])]]
      | _ \<Rightarrow> decodesInFlight s)"
  by (simp add: commit_def runDecoder_def Let_def latent_to_f32_map LATENT_DIM_def
      split: option.splits bool.splits)

lemma decode_settled_drawn:
  assumes "map_of outs ''x_recon'' = Some x"
  shows "runDecoder_settled (Inr outs) s = s\<lparr>smallCanvas := planar_to_rgba (tdata x)\<rparr>"
  using assms by (simp add: runDecoder_settled_def)

lemma decode_settled_fields:
  "latent (runDecoder_settled r s) = latent s" "hData (runDecoder_settled r s) = hData s"
  "cData (runDecoder_settled r s) = cData s"
  "stepsInFlight (runDecoder_settled r s) = stepsInFlight s"
  by (simp_all add: runDecoder_settled_def setter_defs split: sum.splits option.splits)

text \<open>
  The four input tensors of a dynamics call, written out: they are built when the stored
  recurrent arrays fit, otherwise the constructor of \<open>h0\<close> or \<open>c0\<close> throws.
\<close>

lemma latent_to_f32_length: "length (latent_to_f32 fr z) = LATENT_DIM"
  by (simp add: latent_to_f32_map)

lemma lstm_feeds_eq:
  "lstm_feeds fr z a h c =
     (if state_fits h c
      then Inr [(''latent'', float32_tensor (map (\<lambda>i. fr (js_index z i)) [0..<16]) [1, 16]),
                (''action'', float32_tensor [fr a] [1, 1]),
                (''h0'', float32_tensor
                   (case (h, c) of (Some h', Some c') \<Rightarrow> h' | _ \<Rightarrow> replicate 256 (Num 0))
                   [2, 1, 128]),
                (''c0'', float32_tensor
                   (case (h, c) of (Some h', Some c') \<Rightarrow> c' | _ \<Rightarrow> replicate 256 (Num 0))
                   [2, 1, 128])]
      else Inl Tensor_size_error)"
  by (cases h; cases c)
    (simp_all add: lstm_feeds_def ort_Tensor_def latent_to_f32_map state_fits_def
      LATENT_DIM_def NUM_LAYERS_def HIDDEN_DIM_def)

lemma lstm_feeds_action:
  "lstm_feeds fr z a h c = Inr fs \<Longrightarrow> \<exists>fs'. lstm_feeds fr z a' h c = Inr fs'"
  by (simp add: lstm_feeds_eq split: if_splits)

lemma step_issue_fields:
  "latent (stepWithAction fr a s) = latent s" "hData (stepWithAction fr a s) = hData s"
  "cData (stepWithAction fr a s) = cData s"
  "depsChanged (stepWithAction fr a s) = depsChanged s"
  "decoderSession (stepWithAction fr a s) = decoderSession s"
  "lstmSession (stepWithAction fr a s) = lstmSession s"
  "loading (stepWithAction fr a s) = loading s"
  "decodesInFlight (stepWithAction fr a s) = decodesInFlight s"
  by (simp_all add: stepWithAction_def setter_defs split: option.splits sum.splits)

lemma step_issue_in_flight:
  "lstmSession s = Some lstm \<Longrightarrow> lstm_feeds fr (latent s) a (hData s) (cData s) = Inr fs \<Longrightarrow>
   stepsInFlight (stepWithAction fr a s) = stepsInFlight s @ [lstm fs] \<and>
   error (stepWithAction fr a s) = error s"
  by (simp add: stepWithAction_def)

text \<open>
  With stored arrays that do not fit, a click starts no run: the constructor's error is
  reported at the click and everything else stays.
\<close>

lemma step_issue_misfit:
  "lstmSession s = Some lstm \<Longrightarrow> \<not> state_fits (hData s) (cData s) \<Longrightarrow>
   stepWithAction fr a s = s\<lparr>error := Some Tensor_size_error\<rparr>"
  by (simp add: stepWithAction_def lstm_feeds_eq setter_defs)

lemma step_settled_success:
  assumes "map_of outs ''next_latent'' = Some nl" and "map_of outs ''h1'' = Some h1"
    and "map_of outs ''c1'' = Some c1"
  shows "stepWithAction_settled (Inr outs) s =
    s\<lparr>latent := tdata nl, depsChanged := True, hData := Some (tdata h1), cData := Some (tdata c1)\<rparr>"
  using assms by (simp add: stepWithAction_settled_def setter_defs Let_def)

lemma step_settled_rejected: "stepWithAction_settled (Inl e) s = s\<lparr>error := Some e\<rparr>"
  by (simp add: stepWithAction_settled_def setter_defs)

text \<open>
  When an output is missing the continuation stops half way: with \<^verbatim>\<open>next_latent\<close> but no
  \<^verbatim>\<open>h1\<close>, the latent is replaced and the recurrent state is not, and the error is shown.
\<close>

lemma step_settled_partial:
  assumes "map_of outs ''next_latent'' = Some nl" and "map_of outs ''h1'' = None"
  shows "stepWithAction_settled (Inr outs) s =
    s\<lparr>latent := tdata nl, depsChanged := True, error := Some TypeError_undefined\<rparr>"
  using assms by (simp add: stepWithAction_settled_def setter_defs Let_def)



section \<open>The slider range\<close>

lemma range_value_bounds: "- 3 \<le> range_value raw \<and> range_value raw \<le> 3"
proof -
  define v where "v = min slider_max (max slider_min raw)"
  define n where "n = \<lfloor>(v - slider_min) / slider_step + 1 / 2\<rfloor>"
  have v: "- 3 \<le> v" "v \<le> 3" by (simp_all add: v_def slider_min_def slider_max_def)
  have t: "(v - slider_min) / slider_step = 20 * (v + 3)"
    by (simp add: slider_min_def slider_step_def)
  have "0 \<le> n" unfolding n_def t using v by simp
  moreover have "n \<le> 120"
  proof -
    have "20 * (v + 3) + 1 / 2 < 121" using v by simp
    then have "\<lfloor>20 * (v + 3) + 1 / 2\<rfloor> < 121" by (simp add: floor_less_iff)
    then show ?thesis unfolding n_def t by simp
  qed
  moreover have "range_value raw = - 3 + of_int n / 20"
    by (simp add: range_value_def Let_def v_def n_def slider_min_def slider_step_def)
  ultimately show ?thesis by simp
qed

lemma range_value_examples: "range_value 1 = 1" "range_value (1 / 2) = 1 / 2" "range_value 7 = 3"
  by (simp_all add: range_value_def Let_def slider_min_def slider_max_def slider_step_def)

section \<open>Until the first request\<close>

lemma untouched_fire:
  assumes "untouched s" and "\<not> is_request e"
  shows "untouched (fire fr e s)"
  using assms
  by (cases e)
    (simp_all add: untouched_def commit_fields decode_settled_fields loadModels_fulfilled_def
      loadModels_rejected_def setter_defs)

lemma untouched_run:
  "untouched s \<Longrightarrow> \<forall>e \<in> set evs. \<not> is_request e \<Longrightarrow> untouched (run_events fr evs s)"
  unfolding run_events_def
  by (induction evs arbitrary: s) (simp_all add: untouched_fire)

section \<open>The example runs\<close>

lemma zeros16:
  "replicate 16 (Num 0) = [Num 0, Num 0, Num 0, Num 0, Num 0, Num 0, Num 0, Num 0,
        Num 0, Num 0, Num 0, Num 0, Num 0, Num 0, Num 0, Num 0]"
  by (simp add: numeral_eq_Suc)

lemma fround_exact_Num: "fround_exact (Num x) = Num x"
  by (simp add: fround_exact_def)

lemma plane_decoder_z:
  "plane_decoder [(''z'', float32_tensor (x # xs) ds)] =
     Inr [(''x_recon'', float32_tensor (replicate (3 * IMG_H * IMG_W) x) [1, 3, IMG_H, IMG_W])]"
  by (simp add: plane_decoder_def float32_tensor_def js_index_def)

lemma mock_outputs:
  "map_of [(''next_latent'', nl), (''h1'', h1), (''c1'', c1)] ''next_latent'' = Some nl"
  "map_of [(''next_latent'', nl), (''h1'', h1), (''c1'', c1)] ''h1'' = Some h1"
  "map_of [(''next_latent'', nl), (''h1'', h1), (''c1'', c1)] ''c1'' = Some c1"
  by simp_all

lemma mock_lstm_cold:
  "fs = [(''latent'', float32_tensor (replicate 16 (Num 0)) [1, 16]),
         (''action'', float32_tensor [Num 0] [1, 1]),
         (''h0'', float32_tensor (replicate 256 (Num 0)) [2, 1, 128]),
         (''c0'', float32_tensor (replicate 256 (Num 0)) [2, 1, 128])] \<Longrightarrow>
   mock_lstm fs =
     Inr [(''next_latent'', float32_tensor (Num 1 # replicate 15 (Num 0)) [1, 16]),
          (''h1'', float32_tensor (replicate 256 (Num 1)) [2, 1, 128]),
          (''c1'', float32_tensor (replicate 256 (Num 1)) [2, 1, 128])]"
  by (simp add: mock_lstm_def)

lemma ready_state_plane:
  "ready_state plane_decoder lstm =
     \<lparr>decoderSession = Some plane_decoder, lstmSession = Some lstm, loading = False,
      error = None, latent = replicate 16 (Num 0), hData = None, cData = None,
      smallCanvas = planar_to_rgba (replicate (3 * IMG_H * IMG_W) (Num 0)),
      depsChanged = False, decodesInFlight = [], stepsInFlight = []\<rparr>"
  by (simp add: ready_state_def run_events_def initial_state_def loadModels_fulfilled_def
      commit_def runDecoder_def runDecoder_settled_def setter_defs remove_nth_def
      plane_decoder_def float32_tensor_def latent_to_f32_full fround_exact_def js_index_def
      LATENT_DIM_def)

lemma ready_fields:
  "decoderSession (ready_state plane_decoder lstm) = Some plane_decoder"
  "lstmSession (ready_state plane_decoder lstm) = Some lstm"
  "loading (ready_state plane_decoder lstm) = False"
  "error (ready_state plane_decoder lstm) = None"
  "latent (ready_state plane_decoder lstm) = replicate 16 (Num 0)"
  "hData (ready_state plane_decoder lstm) = None"
  "cData (ready_state plane_decoder lstm) = None"
  "depsChanged (ready_state plane_decoder lstm) = False"
  "decodesInFlight (ready_state plane_decoder lstm) = []"
  "stepsInFlight (ready_state plane_decoder lstm) = []"
  "\<not> disabled (ready_state plane_decoder lstm)"
  by (simp_all add: ready_state_plane disabled_def)

lemma overlap_issued_eq:
  "overlap_issued =
     \<lparr>decoderSession = Some plane_decoder, lstmSession = Some mock_lstm, loading = False,
      error = None,
      latent = [Num (1 / 2), Num 0, Num 0, Num 0, Num 0, Num 0, Num 0, Num 0,
                Num 0, Num 0, Num 0, Num 0, Num 0, Num 0, Num 0, Num 0],
      hData = None, cData = None,
      smallCanvas = planar_to_rgba (replicate (3 * IMG_H * IMG_W) (Num 0)),
      depsChanged = False,
      decodesInFlight =
        [Inr [(''x_recon'', float32_tensor (replicate (3 * IMG_H * IMG_W) (Num 1))
                [1, 3, IMG_H, IMG_W])],
         Inr [(''x_recon'', float32_tensor (replicate (3 * IMG_H * IMG_W) (Num (1 / 2)))
                [1, 3, IMG_H, IMG_W])]],
      stepsInFlight = []\<rparr>"
  by (simp add: overlap_issued_def run_events_def ready_state_plane zeros16 range_value_examples
      handleSliderChange_def js_array_set_def setter_defs commit_def runDecoder_def
      latent_to_f32_full LATENT_DIM_def fround_exact_def plane_decoder_z)

lemma overlap_issued_fields:
  "decodesInFlight overlap_issued =
     [Inr [(''x_recon'', float32_tensor (replicate (3 * IMG_H * IMG_W) (Num 1))
                [1, 3, IMG_H, IMG_W])],
      Inr [(''x_recon'', float32_tensor (replicate (3 * IMG_H * IMG_W) (Num (1 / 2)))
                [1, 3, IMG_H, IMG_W])]]"
  "latent overlap_issued = Num (1 / 2) # replicate 15 (Num 0)"
  by (simp_all add: overlap_issued_eq numeral_eq_Suc)

lemma overlap_final_eq:
  "overlap_final =
     \<lparr>decoderSession = Some plane_decoder, lstmSession = Some mock_lstm, loading = False,
      error = None,
      latent = [Num (1 / 2), Num 0, Num 0, Num 0, Num 0, Num 0, Num 0, Num 0,
                Num 0, Num 0, Num 0, Num 0, Num 0, Num 0, Num 0, Num 0],
      hData = None, cData = None,
      smallCanvas = planar_to_rgba (replicate (3 * IMG_H * IMG_W) (Num 1)),
      depsChanged = False, decodesInFlight = [], stepsInFlight = []\<rparr>"
  by (simp add: overlap_final_def run_events_def overlap_issued_eq remove_nth_def
      runDecoder_settled_def float32_tensor_def commit_def)

lemma frame_pixel0:
  "planar_to_rgba (replicate (3 * IMG_H * IMG_W) v) ! 0 = channel_byte v"
proof -
  have "(0::nat) < IMG_H * IMG_W" by (simp add: IMG_H_def IMG_W_def)
  from planar_to_rgba_channel[OF this, of 0 "replicate (3 * IMG_H * IMG_W) v"]
  show ?thesis by (simp add: js_index_def IMG_H_def IMG_W_def)
qed

lemma state_fits_None: "state_fits None None"
  by (simp add: state_fits_def)

lemma scenario_issued_fields:
  "stepsInFlight scenario_issued =
     [Inr [(''next_latent'', float32_tensor (Num 1 # replicate 15 (Num 0)) [1, 16]),
           (''h1'', float32_tensor (replicate 256 (Num 1)) [2, 1, 128]),
           (''c1'', float32_tensor (replicate 256 (Num 1)) [2, 1, 128])]]"
  "decoderSession scenario_issued = Some plane_decoder"
  "decodesInFlight scenario_issued = []"
  "latent scenario_issued = replicate 16 (Num 0)"
  "hData scenario_issued = None" "cData scenario_issued = None"
  by (simp_all add: scenario_issued_def ready_fields commit_fields commit_decodes
      step_issue_fields stepWithAction_def lstm_feeds_eq state_fits_None tensor_data_full
      fround_exact_Num mock_lstm_cold)

lemma scenario_final_fields:
  "latent scenario_final = Num 1 # replicate 15 (Num 0)"
  "hData scenario_final = Some (replicate 256 (Num 1))"
  "cData scenario_final = Some (replicate 256 (Num 1))"
  "decoderSession scenario_final = Some plane_decoder"
  "decodesInFlight scenario_final =
     [plane_decoder [(''z'', float32_tensor (Num 1 # replicate 15 (Num 0)) [1, 16])]]"
  by (simp_all add: scenario_final_def scenario_issued_fields remove_nth_def
      step_settled_success[OF mock_outputs] commit_fields commit_decodes float32_tensor_sel
      tensor_data_full fround_exact_Num)

lemma far_issued_fields:
  "stepsInFlight far_issued =
     [Inr [(''next_latent'', float32_tensor (replicate 16 (Num 5)) [1, 16]),
           (''h1'', float32_tensor (replicate 256 (Num 0)) [2, 1, 128]),
           (''c1'', float32_tensor (replicate 256 (Num 0)) [2, 1, 128])]]"
  by (simp add: far_issued_def ready_fields commit_fields stepWithAction_def lstm_feeds_eq
      state_fits_None far_lstm_def)

section \<open>Claims\<close>

text \<open>
  C1, as the specification has it: when a new edit or step is requested while a decode
  is in flight, the result finally rendered is that of the most recent request, and
  the late result of the older request is discarded. The component has no such check.
  In the run below the slider of component 0 is set to 1 (request R1) and then to
  \<open>1/2\<close> (request R2) while R1 is decoding; R2's decode settles first, R1's last. The
  latent is R2's, the frame that stays on the canvas is R1's (every byte 255), not the
  frame of R2 (bytes 128).
\<close>

theorem latest_request_not_rendered:
  "decodesInFlight overlap_issued =
     [plane_decoder [(''z'', float32_tensor (Num 1 # replicate 15 (Num 0)) [1, 16])],
      plane_decoder [(''z'', float32_tensor (Num (1 / 2) # replicate 15 (Num 0)) [1, 16])]] \<and>
   latent overlap_issued = Num (1 / 2) # replicate 15 (Num 0) \<and>
   latent overlap_final = Num (1 / 2) # replicate 15 (Num 0) \<and>
   plane_decoder [(''z'', float32_tensor (latent overlap_final) [1, 16])] =
     Inr [(''x_recon'', float32_tensor (replicate (3 * IMG_H * IMG_W) (Num (1 / 2)))
            [1, 3, IMG_H, IMG_W])] \<and>
   smallCanvas overlap_final = planar_to_rgba (replicate (3 * IMG_H * IMG_W) (Num 1)) \<and>
   smallCanvas overlap_final ! 0 = 255 \<and>
   planar_to_rgba (replicate (3 * IMG_H * IMG_W) (Num (1 / 2))) ! 0 = 128 \<and>
   smallCanvas overlap_final \<noteq> planar_to_rgba (replicate (3 * IMG_H * IMG_W) (Num (1 / 2)))"
proof -
  have a: "smallCanvas overlap_final ! 0 = 255"
    by (simp add: overlap_final_eq frame_pixel0 channel_byte_boundary)
  have b: "planar_to_rgba (replicate (3 * IMG_H * IMG_W) (Num (1 / 2))) ! 0 = 128"
    by (simp add: frame_pixel0 channel_byte_boundary)
  have c: "smallCanvas overlap_final \<noteq> planar_to_rgba (replicate (3 * IMG_H * IMG_W) (Num (1 / 2)))"
  proof
    assume "smallCanvas overlap_final = planar_to_rgba (replicate (3 * IMG_H * IMG_W) (Num (1 / 2)))"
    then have "smallCanvas overlap_final ! 0 = 128" using b by simp
    then show False using a by simp
  qed
  have r: "replicate 15 (Num 0) = [Num 0, Num 0, Num 0, Num 0, Num 0, Num 0, Num 0,
        Num 0, Num 0, Num 0, Num 0, Num 0, Num 0, Num 0, Num 0]"
    by (simp add: numeral_eq_Suc)
  show ?thesis
    using a b c by (simp add: overlap_final_eq overlap_issued_eq plane_decoder_z r)
qed

text \<open>
  C1, as the code has it: no settled decode is discarded, each is drawn at the moment
  it settles. The calls in flight are listed in the order they were issued, so for two
  overlapping decodes at positions \<open>k1 < k2\<close> that both succeed, R1 issued first and
  settling last, the canvas shows R2's frame once R2 has settled and R1's frame in the
  end; neither completion changes the latent or the recurrent state, which stay as the
  most recent request left them.
\<close>

theorem stale_decode_is_drawn:
  assumes "k1 < k2" and "k2 < length (decodesInFlight s)"
    and "decodesInFlight s ! k1 = Inr o1" and "map_of o1 ''x_recon'' = Some x1"
    and "decodesInFlight s ! k2 = Inr o2" and "map_of o2 ''x_recon'' = Some x2"
  shows "smallCanvas (fire fr (DecodeSettled k2) s) = planar_to_rgba (tdata x2) \<and>
    smallCanvas (fire fr (DecodeSettled k1) (fire fr (DecodeSettled k2) s)) =
      planar_to_rgba (tdata x1) \<and>
    latent (fire fr (DecodeSettled k1) (fire fr (DecodeSettled k2) s)) = latent s \<and>
    hData (fire fr (DecodeSettled k1) (fire fr (DecodeSettled k2) s)) = hData s \<and>
    cData (fire fr (DecodeSettled k1) (fire fr (DecodeSettled k2) s)) = cData s"
proof -
  define t where "t = fire fr (DecodeSettled k2) s"
  have t: "t = commit fr (s\<lparr>decodesInFlight := remove_nth k2 (decodesInFlight s),
                             smallCanvas := planar_to_rgba (tdata x2)\<rparr>)"
    using assms by (simp add: t_def decode_settled_drawn)
  have fl: "decodesInFlight t = remove_nth k2 (decodesInFlight s) \<or>
            (\<exists>d. decodesInFlight t = remove_nth k2 (decodesInFlight s) @ [d])"
    by (simp add: t commit_decodes split: option.splits bool.splits)
  have k1: "k1 < length (remove_nth k2 (decodesInFlight s))"
    using assms(1,2) by (simp add: remove_nth_length)
  then have k1': "k1 < length (decodesInFlight t)" using fl by auto
  have "decodesInFlight t ! k1 = remove_nth k2 (decodesInFlight s) ! k1"
    using fl k1 by (auto simp: nth_append)
  then have r1: "decodesInFlight t ! k1 = Inr o1"
    using assms by (simp add: remove_nth_before)
  have "smallCanvas t = planar_to_rgba (tdata x2)" by (simp add: t commit_fields)
  moreover have "smallCanvas (fire fr (DecodeSettled k1) t) = planar_to_rgba (tdata x1)"
    using k1' r1 assms(4) by (simp add: decode_settled_drawn commit_fields)
  moreover have "latent (fire fr (DecodeSettled k1) t) = latent s"
    "hData (fire fr (DecodeSettled k1) t) = hData s"
    "cData (fire fr (DecodeSettled k1) t) = cData s"
    using k1' r1 assms(4) by (simp_all add: decode_settled_drawn commit_fields t)
  ultimately show ?thesis unfolding t_def by blast
qed

theorem stale_decode_is_drawn_witness:
  "(0::nat) < 1 \<and> 1 < length (decodesInFlight overlap_issued) \<and>
   smallCanvas (fire fround_exact (DecodeSettled 1) overlap_issued) =
     planar_to_rgba (replicate (3 * IMG_H * IMG_W) (Num (1 / 2))) \<and>
   smallCanvas (fire fround_exact (DecodeSettled 0) (fire fround_exact (DecodeSettled 1) overlap_issued)) =
     planar_to_rgba (replicate (3 * IMG_H * IMG_W) (Num 1)) \<and>
   latent (fire fround_exact (DecodeSettled 0) (fire fround_exact (DecodeSettled 1) overlap_issued)) =
     Num (1 / 2) # replicate 15 (Num 0)"
proof -
  have k: "(0::nat) < 1" by simp
  have n: "1 < length (decodesInFlight overlap_issued)" by (simp add: overlap_issued_fields)
  have r1: "decodesInFlight overlap_issued ! 0 =
      Inr [(''x_recon'', float32_tensor (replicate (3 * IMG_H * IMG_W) (Num 1))
                [1, 3, IMG_H, IMG_W])]"
    and r2: "decodesInFlight overlap_issued ! 1 =
      Inr [(''x_recon'', float32_tensor (replicate (3 * IMG_H * IMG_W) (Num (1 / 2)))
                [1, 3, IMG_H, IMG_W])]"
    by (simp_all add: overlap_issued_fields)
  have x: "map_of [(''x_recon'', t)] ''x_recon'' = Some t" for t :: tensor by simp
  show ?thesis
    using k n stale_decode_is_drawn[OF k n r1 x r2 x, of fround_exact]
    by (simp add: float32_tensor_sel overlap_issued_fields del: fire.simps)
qed

text \<open>
  C2. In every decoded frame, for every pixel position \<open>p\<close> and every channel \<open>c\<close> in plane
  order R, G, B, the byte at index \<open>p * 4 + c\<close> is \<open>max 0 (min 255 (round (v * 255)))\<close>,
  where \<open>v\<close> is the decoder's float for that plane and position, and the byte at
  \<open>p * 4 + 3\<close> is 255. The floats \<open>-0.1\<close>, \<open>0\<close>, \<open>0.5\<close>, \<open>1\<close> and \<open>1.1\<close> give the bytes
  0, 0, 128, 255 and 255.
\<close>

theorem pixel_conversion_law:
  assumes "p < IMG_H * IMG_W"
  shows "planar_to_rgba data ! (p * 4 + 3) = 255 \<and>
    (\<forall>c v. c < 3 \<and> js_index data (c * (IMG_H * IMG_W) + p) = Num v \<longrightarrow>
       uint (planar_to_rgba data ! (p * 4 + c)) = max 0 (min 255 (round (v * 255))) \<and>
       (v = - (1 / 10) \<longrightarrow> planar_to_rgba data ! (p * 4 + c) = 0) \<and>
       (v = 0 \<longrightarrow> planar_to_rgba data ! (p * 4 + c) = 0) \<and>
       (v = 1 / 2 \<longrightarrow> planar_to_rgba data ! (p * 4 + c) = 128) \<and>
       (v = 1 \<longrightarrow> planar_to_rgba data ! (p * 4 + c) = 255) \<and>
       (v = 11 / 10 \<longrightarrow> planar_to_rgba data ! (p * 4 + c) = 255))"
proof (intro conjI allI impI)
  show "planar_to_rgba data ! (p * 4 + 3) = 255"
    using assms by (rule planar_to_rgba_alpha)
next
  fix c v assume cv: "c < 3 \<and> js_index data (c * (IMG_H * IMG_W) + p) = Num v"
  then have b: "planar_to_rgba data ! (p * 4 + c) = channel_byte (Num v)"
    using planar_to_rgba_channel[OF assms, of c data] by simp
  show "uint (planar_to_rgba data ! (p * 4 + c)) = max 0 (min 255 (round (v * 255)))"
    unfolding b by (rule channel_byte_Num)
  show "planar_to_rgba data ! (p * 4 + c) = 0" if "v = - (1 / 10)"
    unfolding b that by (rule channel_byte_boundary)
  show "planar_to_rgba data ! (p * 4 + c) = 0" if "v = 0"
    unfolding b that by (rule channel_byte_boundary)
  show "planar_to_rgba data ! (p * 4 + c) = 128" if "v = 1 / 2"
    unfolding b that by (rule channel_byte_boundary)
  show "planar_to_rgba data ! (p * 4 + c) = 255" if "v = 1"
    unfolding b that by (rule channel_byte_boundary)
  show "planar_to_rgba data ! (p * 4 + c) = 255" if "v = 11 / 10"
    unfolding b that by (rule channel_byte_boundary)
qed

theorem pixel_conversion_law_witness:
  "(5::nat) < IMG_H * IMG_W \<and>
   js_index (replicate (3 * IMG_H * IMG_W) (Num (1 / 2))) (1 * (IMG_H * IMG_W) + 5) = Num (1 / 2) \<and>
   planar_to_rgba (replicate (3 * IMG_H * IMG_W) (Num (1 / 2))) ! (5 * 4 + 1) = 128 \<and>
   uint (planar_to_rgba (replicate (3 * IMG_H * IMG_W) (Num (1 / 2))) ! (5 * 4 + 1)) =
     max 0 (min 255 (round ((1 / 2 :: real) * 255))) \<and>
   planar_to_rgba (replicate (3 * IMG_H * IMG_W) (Num (1 / 2))) ! (5 * 4 + 3) = 255"
proof -
  have p: "(5::nat) < IMG_H * IMG_W" by (simp add: IMG_H_def IMG_W_def)
  have v: "js_index (replicate (3 * IMG_H * IMG_W) (Num (1 / 2))) (1 * (IMG_H * IMG_W) + 5)
             = Num (1 / 2)"
    by (simp add: js_index_def IMG_H_def IMG_W_def)
  show ?thesis
    using p v pixel_conversion_law[OF p, of "replicate (3 * IMG_H * IMG_W) (Num (1 / 2))"]
    by (metis one_less_numeral_iff semiring_norm(77))
qed

text \<open>A run that is rejected while other events come in between changes nothing either.\<close>

lemma step_rejected_any_time:
  assumes "k < length (stepsInFlight t)" and "stepsInFlight t ! k = Inl e"
  shows "latent (fire fr (StepSettled k) t) = latent t \<and> hData (fire fr (StepSettled k) t) = hData t \<and>
         cData (fire fr (StepSettled k) t) = cData t \<and> error (fire fr (StepSettled k) t) = Some e"
  using assms by (simp add: commit_fields step_settled_rejected)

text \<open>
  C3. If the dynamics call of a step is made and rejected, then after the step the latent
  and the recurrent state are what they were before the call and the error is reported.
  The sessions and the loading flag are as before too, so no button is disabled by the
  failure, and the engine goes on accepting requests: a following edit writes its
  component, a following step builds its tensors and issues its call on the unchanged
  state, a following reset resets.
\<close>

theorem step_failure_keeps_state:
  assumes "lstmSession s = Some lstm"
    and "lstm_feeds fr (latent s) a (hData s) (cData s) = Inr fs"
    and "lstm fs = Inl e"
  shows "let s' = fire fr (StepSettled (length (stepsInFlight s))) (commit fr (stepWithAction fr a s))
    in stepsInFlight (commit fr (stepWithAction fr a s)) = stepsInFlight s @ [lstm fs] \<and>
       latent s' = latent s \<and> hData s' = hData s \<and> cData s' = cData s \<and>
       error s' = Some e \<and>
       decoderSession s' = decoderSession s \<and> lstmSession s' = lstmSession s \<and>
       loading s' = loading s \<and> disabled s' = disabled s \<and>
       stepsInFlight s' = stepsInFlight s \<and>
       (\<forall>i v. latent (commit fr (handleSliderChange i v s')) = js_array_set (latent s) i v) \<and>
       (\<forall>a'. \<exists>fs'. lstm_feeds fr (latent s) a' (hData s) (cData s) = Inr fs' \<and>
          stepsInFlight (commit fr (stepWithAction fr a' s')) = stepsInFlight s @ [lstm fs']) \<and>
       latent (commit fr (resetLatentAndHidden s')) = replicate 16 (Num 0) \<and>
       hData (commit fr (resetLatentAndHidden s')) = None \<and>
       cData (commit fr (resetLatentAndHidden s')) = None"
proof -
  define s1 where "s1 = commit fr (stepWithAction fr a s)"
  have in_flight: "stepsInFlight s1 = stepsInFlight s @ [Inl e]"
    using assms step_issue_in_flight[OF assms(1,2)] by (simp add: s1_def commit_fields)
  have same1: "latent s1 = latent s" "hData s1 = hData s" "cData s1 = cData s"
    "decoderSession s1 = decoderSession s" "lstmSession s1 = lstmSession s"
    "loading s1 = loading s"
    by (simp_all add: s1_def commit_fields step_issue_fields)
  define s' where "s' = fire fr (StepSettled (length (stepsInFlight s))) s1"
  have s': "s' = commit fr (s1\<lparr>stepsInFlight := stepsInFlight s, error := Some e\<rparr>)"
    by (simp add: s'_def in_flight remove_nth_last step_settled_rejected)
  have f: "latent s' = latent s" "hData s' = hData s" "cData s' = cData s" "error s' = Some e"
    "decoderSession s' = decoderSession s" "lstmSession s' = lstmSession s"
    "loading s' = loading s" "stepsInFlight s' = stepsInFlight s"
    by (simp_all add: s' commit_fields same1)
  have "disabled s' = disabled s" by (simp add: disabled_def f)
  moreover have "latent (commit fr (handleSliderChange i v s')) = js_array_set (latent s) i v" for i v
    by (simp add: commit_fields handleSliderChange_def setter_defs f)
  moreover have "\<exists>fs'. lstm_feeds fr (latent s) a' (hData s) (cData s) = Inr fs' \<and>
      stepsInFlight (commit fr (stepWithAction fr a' s')) = stepsInFlight s @ [lstm fs']" for a'
  proof -
    obtain fs' where fs': "lstm_feeds fr (latent s) a' (hData s) (cData s) = Inr fs'"
      using lstm_feeds_action[OF assms(2)] by blast
    have "lstmSession s' = Some lstm" using assms(1) f by simp
    moreover have "lstm_feeds fr (latent s') a' (hData s') (cData s') = Inr fs'"
      using fs' f by simp
    ultimately have "stepsInFlight (stepWithAction fr a' s') = stepsInFlight s' @ [lstm fs']"
      using step_issue_in_flight by blast
    then show ?thesis using fs' f by (simp add: commit_fields)
  qed
  moreover have "latent (commit fr (resetLatentAndHidden s')) = replicate 16 (Num 0)"
    "hData (commit fr (resetLatentAndHidden s')) = None"
    "cData (commit fr (resetLatentAndHidden s')) = None"
    by (simp_all add: commit_fields resetLatentAndHidden_def setter_defs LATENT_DIM_def)
  moreover have "stepsInFlight s1 = stepsInFlight s @ [lstm fs]"
    using in_flight assms(3) by simp
  ultimately show ?thesis
    using f unfolding Let_def s'_def s1_def by blast
qed

text \<open>The tensors of a Left click on the ready component.\<close>

lemma ready_cold_feeds:
  "lstm_feeds fround_exact (latent (ready_state plane_decoder lstm)) (Num 0)
      (hData (ready_state plane_decoder lstm)) (cData (ready_state plane_decoder lstm)) =
   Inr [(''latent'', float32_tensor (replicate 16 (Num 0)) [1, 16]),
        (''action'', float32_tensor [Num 0] [1, 1]),
        (''h0'', float32_tensor (replicate 256 (Num 0)) [2, 1, 128]),
        (''c0'', float32_tensor (replicate 256 (Num 0)) [2, 1, 128])]"
  by (simp add: ready_fields lstm_feeds_eq state_fits_None tensor_data_full fround_exact_Num)

theorem step_failure_keeps_state_witness:
  "lstmSession (ready_state plane_decoder failing_lstm) = Some failing_lstm \<and>
   lstm_feeds fround_exact (latent (ready_state plane_decoder failing_lstm)) (Num 0)
      (hData (ready_state plane_decoder failing_lstm)) (cData (ready_state plane_decoder failing_lstm)) =
     Inr [(''latent'', float32_tensor (replicate 16 (Num 0)) [1, 16]),
          (''action'', float32_tensor [Num 0] [1, 1]),
          (''h0'', float32_tensor (replicate 256 (Num 0)) [2, 1, 128]),
          (''c0'', float32_tensor (replicate 256 (Num 0)) [2, 1, 128])] \<and>
   failing_lstm [(''latent'', float32_tensor (replicate 16 (Num 0)) [1, 16]),
          (''action'', float32_tensor [Num 0] [1, 1]),
          (''h0'', float32_tensor (replicate 256 (Num 0)) [2, 1, 128]),
          (''c0'', float32_tensor (replicate 256 (Num 0)) [2, 1, 128])]
     = Inl ''Error: invalid input shape'' \<and>
   latent (fire fround_exact (StepSettled 0)
     (commit fround_exact (stepWithAction fround_exact (Num 0) (ready_state plane_decoder failing_lstm))))
     = replicate 16 (Num 0) \<and>
   hData (fire fround_exact (StepSettled 0)
     (commit fround_exact (stepWithAction fround_exact (Num 0) (ready_state plane_decoder failing_lstm))))
     = None \<and>
   cData (fire fround_exact (StepSettled 0)
     (commit fround_exact (stepWithAction fround_exact (Num 0) (ready_state plane_decoder failing_lstm))))
     = None \<and>
   error (fire fround_exact (StepSettled 0)
     (commit fround_exact (stepWithAction fround_exact (Num 0) (ready_state plane_decoder failing_lstm))))
     = Some ''Error: invalid input shape''"
proof -
  have l: "lstmSession (ready_state plane_decoder failing_lstm) = Some failing_lstm"
    by (simp add: ready_fields)
  note c = ready_cold_feeds[of failing_lstm]
  have f: "failing_lstm [(''latent'', float32_tensor (replicate 16 (Num 0)) [1, 16]),
          (''action'', float32_tensor [Num 0] [1, 1]),
          (''h0'', float32_tensor (replicate 256 (Num 0)) [2, 1, 128]),
          (''c0'', float32_tensor (replicate 256 (Num 0)) [2, 1, 128])]
     = Inl ''Error: invalid input shape''"
    by (simp add: failing_lstm_def)
  show ?thesis
    using l c f step_failure_keeps_state[OF l c f]
    by (simp add: Let_def ready_fields del: fire.simps)
qed

text \<open>
  C4. A step from an absent recurrent state is a step from zero-filled \<open>h\<close> and \<open>c\<close> of
  shape \<open>[2,1,128]\<close>: the tensors are built in both cases and are the same, so the call
  that is issued and the model's answer are the same, and when it settles the latent, the
  reported error and (on success) the new recurrent state are the same. The absent state
  is not an error: the call is issued and the error cell is not touched.
\<close>

theorem cold_start_equivalence:
  assumes "lstmSession s = Some lstm"
  shows "let zeros = replicate 256 (Num 0);
             cold = commit fr (stepWithAction fr a (s\<lparr>hData := None, cData := None\<rparr>));
             warm = commit fr (stepWithAction fr a (s\<lparr>hData := Some zeros, cData := Some zeros\<rparr>));
             k = length (stepsInFlight s);
             call = [(''latent'', float32_tensor (map (\<lambda>i. fr (js_index (latent s) i)) [0..<16]) [1, 16]),
                     (''action'', float32_tensor [fr a] [1, 1]),
                     (''h0'', float32_tensor zeros [2, 1, 128]),
                     (''c0'', float32_tensor zeros [2, 1, 128])]
         in lstm_feeds fr (latent s) a None None = Inr call \<and>
            lstm_feeds fr (latent s) a (Some zeros) (Some zeros) = Inr call \<and>
            map_of call ''h0'' = Some (float32_tensor zeros [2, 1, 128]) \<and>
            map_of call ''c0'' = Some (float32_tensor zeros [2, 1, 128]) \<and>
            stepsInFlight cold = stepsInFlight s @ [lstm call] \<and>
            stepsInFlight warm = stepsInFlight cold \<and>
            error cold = error s \<and>
            latent (fire fr (StepSettled k) cold) = latent (fire fr (StepSettled k) warm) \<and>
            error (fire fr (StepSettled k) cold) = error (fire fr (StepSettled k) warm) \<and>
            (\<forall>outs nl h1 c1.
               lstm call = Inr outs \<and>
               map_of outs ''next_latent'' = Some nl \<and> map_of outs ''h1'' = Some h1 \<and>
               map_of outs ''c1'' = Some c1 \<longrightarrow>
                 latent (fire fr (StepSettled k) cold) = tdata nl \<and>
                 hData (fire fr (StepSettled k) cold) = Some (tdata h1) \<and>
                 cData (fire fr (StepSettled k) cold) = Some (tdata c1) \<and>
                 latent (fire fr (StepSettled k) warm) = tdata nl \<and>
                 hData (fire fr (StepSettled k) warm) = Some (tdata h1) \<and>
                 cData (fire fr (StepSettled k) warm) = Some (tdata c1) \<and>
                 error (fire fr (StepSettled k) cold) = error s)"
proof -
  define zeros where "zeros = replicate 256 (Num 0)"
  define cold where "cold = commit fr (stepWithAction fr a (s\<lparr>hData := None, cData := None\<rparr>))"
  define warm where
    "warm = commit fr (stepWithAction fr a (s\<lparr>hData := Some zeros, cData := Some zeros\<rparr>))"
  define k where "k = length (stepsInFlight s)"
  define call where
    "call = [(''latent'', float32_tensor (map (\<lambda>i. fr (js_index (latent s) i)) [0..<16]) [1, 16]),
             (''action'', float32_tensor [fr a] [1, 1]),
             (''h0'', float32_tensor zeros [2, 1, 128]),
             (''c0'', float32_tensor zeros [2, 1, 128])]"
  define r where "r = lstm call"
  have fc: "lstm_feeds fr (latent s) a None None = Inr call"
    by (simp add: lstm_feeds_eq state_fits_def call_def zeros_def)
  have fw: "lstm_feeds fr (latent s) a (Some zeros) (Some zeros) = Inr call"
    by (simp add: lstm_feeds_eq state_fits_def call_def zeros_def NUM_LAYERS_def HIDDEN_DIM_def)
  have h0: "map_of call ''h0'' = Some (float32_tensor zeros [2, 1, 128])"
    and c0: "map_of call ''c0'' = Some (float32_tensor zeros [2, 1, 128])"
    by (simp_all add: call_def)
  have cold_fl: "stepsInFlight cold = stepsInFlight s @ [r]" and err: "error cold = error s"
    using assms fc by (simp_all add: cold_def r_def commit_fields stepWithAction_def)
  have warm_fl: "stepsInFlight warm = stepsInFlight s @ [r]" and errw: "error warm = error s"
    using assms fw by (simp_all add: warm_def r_def commit_fields stepWithAction_def)
  have lat: "latent cold = latent warm"
    by (simp add: cold_def warm_def commit_fields step_issue_fields)
  have cold': "fire fr (StepSettled k) cold =
      commit fr (stepWithAction_settled r (cold\<lparr>stepsInFlight := stepsInFlight s\<rparr>))"
    by (simp add: k_def cold_fl remove_nth_last)
  have warm': "fire fr (StepSettled k) warm =
      commit fr (stepWithAction_settled r (warm\<lparr>stepsInFlight := stepsInFlight s\<rparr>))"
    by (simp add: k_def warm_fl remove_nth_last)
  have same_latent: "latent (fire fr (StepSettled k) cold) = latent (fire fr (StepSettled k) warm)"
    unfolding cold' warm'
    by (simp add: commit_fields stepWithAction_settled_def setter_defs lat Let_def
        split: sum.splits option.splits)
  have same_error: "error (fire fr (StepSettled k) cold) = error (fire fr (StepSettled k) warm)"
    unfolding cold' warm'
    by (simp add: commit_fields stepWithAction_settled_def setter_defs err errw Let_def
        split: sum.splits option.splits)
  have success: "latent (fire fr (StepSettled k) cold) = tdata nl \<and>
                 hData (fire fr (StepSettled k) cold) = Some (tdata h1) \<and>
                 cData (fire fr (StepSettled k) cold) = Some (tdata c1) \<and>
                 latent (fire fr (StepSettled k) warm) = tdata nl \<and>
                 hData (fire fr (StepSettled k) warm) = Some (tdata h1) \<and>
                 cData (fire fr (StepSettled k) warm) = Some (tdata c1) \<and>
                 error (fire fr (StepSettled k) cold) = error s"
    if "r = Inr outs \<and> map_of outs ''next_latent'' = Some nl \<and> map_of outs ''h1'' = Some h1 \<and>
        map_of outs ''c1'' = Some c1" for outs nl h1 c1
    unfolding cold' warm' using that
    by (simp add: commit_fields step_settled_success err)
  show ?thesis
    unfolding Let_def
    using fc fw h0 c0 cold_fl warm_fl err same_latent same_error success
    unfolding zeros_def cold_def warm_def k_def r_def call_def
    by (intro conjI allI impI) simp_all
qed

theorem cold_start_equivalence_witness:
  "lstmSession (ready_state plane_decoder mock_lstm) = Some mock_lstm \<and>
   hData (fire fround_exact (StepSettled 0) (commit fround_exact (stepWithAction fround_exact (Num 0)
      ((ready_state plane_decoder mock_lstm)\<lparr>hData := None, cData := None\<rparr>)))) =
     Some (replicate 256 (Num 1)) \<and>
   hData (fire fround_exact (StepSettled 0) (commit fround_exact (stepWithAction fround_exact (Num 0)
      ((ready_state plane_decoder mock_lstm)\<lparr>hData := Some (replicate 256 (Num 0)),
         cData := Some (replicate 256 (Num 0))\<rparr>)))) =
     Some (replicate 256 (Num 1)) \<and>
   latent (fire fround_exact (StepSettled 0) (commit fround_exact (stepWithAction fround_exact (Num 0)
      ((ready_state plane_decoder mock_lstm)\<lparr>hData := None, cData := None\<rparr>)))) =
     Num 1 # replicate 15 (Num 0) \<and>
   latent (fire fround_exact (StepSettled 0) (commit fround_exact (stepWithAction fround_exact (Num 0)
      ((ready_state plane_decoder mock_lstm)\<lparr>hData := Some (replicate 256 (Num 0)),
         cData := Some (replicate 256 (Num 0))\<rparr>)))) =
     Num 1 # replicate 15 (Num 0)"
proof -
  have l: "lstmSession (ready_state plane_decoder mock_lstm) = Some mock_lstm"
    by (simp add: ready_fields)
  show ?thesis
    using l cold_start_equivalence[OF l, of fround_exact "Num 0"]
    by (simp add: Let_def ready_fields tensor_data_full fround_exact_Num
        mock_lstm_cold mock_outputs float32_tensor_sel del: fire.simps)
qed

text \<open>
  C5, as the specification has it: from every prior state a reset leaves the latent equal
  to sixteen zeros and the recurrent state absent and triggers a decode of the zero
  latent. The Reset button is enabled while the models are still loading, and there
  \<^verbatim>\<open>runDecoder\<close> returns at its guard: in the initial state a reset resets and issues no
  decode.
\<close>

theorem reset_before_load_issues_no_decode:
  "decoderSession initial_state = None \<and> decodesInFlight initial_state = [] \<and>
   latent (fire fround_exact ResetClick initial_state) = replicate 16 (Num 0) \<and>
   hData (fire fround_exact ResetClick initial_state) = None \<and>
   cData (fire fround_exact ResetClick initial_state) = None \<and>
   decodesInFlight (fire fround_exact ResetClick initial_state) = []"
  by (simp add: commit_fields commit_decodes resetLatentAndHidden_def setter_defs
      initial_state_def LATENT_DIM_def)

text \<open>
  C5, as the code has it: from every state a reset leaves the latent equal to sixteen
  zeros and the recurrent state absent; with the decoder session loaded it issues one
  decode of the zero latent, without it none. A second reset right after the first
  changes nothing but the list of decodes in flight.
\<close>

theorem reset_law:
  "latent (fire fr ResetClick s) = replicate 16 (Num 0) \<and>
   hData (fire fr ResetClick s) = None \<and> cData (fire fr ResetClick s) = None \<and>
   (\<forall>dec. decoderSession s = Some dec \<longrightarrow>
      decodesInFlight (fire fr ResetClick s) =
        decodesInFlight s @ [dec [(''z'', float32_tensor (map fr (replicate 16 (Num 0))) [1, 16])]]) \<and>
   (decoderSession s = None \<longrightarrow> decodesInFlight (fire fr ResetClick s) = decodesInFlight s) \<and>
   fire fr ResetClick (fire fr ResetClick s) =
     (fire fr ResetClick s)\<lparr>decodesInFlight :=
        decodesInFlight (fire fr ResetClick (fire fr ResetClick s))\<rparr>"
  apply (simp add: resetLatentAndHidden_def commit_def runDecoder_def setter_defs
      Let_def latent_to_f32_full split: option.splits)
  apply (simp add: LATENT_DIM_def)
  done

theorem reset_law_witness:
  "decoderSession scenario_final = Some plane_decoder \<and>
   latent scenario_final = Num 1 # replicate 15 (Num 0) \<and>
   hData scenario_final = Some (replicate 256 (Num 1)) \<and>
   latent (fire fround_exact ResetClick scenario_final) = replicate 16 (Num 0) \<and>
   hData (fire fround_exact ResetClick scenario_final) = None \<and>
   cData (fire fround_exact ResetClick scenario_final) = None \<and>
   decodesInFlight (fire fround_exact ResetClick scenario_final) =
     decodesInFlight scenario_final @
       [plane_decoder [(''z'', float32_tensor (replicate 16 (Num 0)) [1, 16])]]"
  using reset_law[of fround_exact scenario_final]
  by (simp add: scenario_final_fields fround_exact_Num del: fire.simps)

text \<open>
  C6. With both sessions loaded and stored recurrent arrays that fit the shape
  \<open>[2,1,128]\<close>, a click on Left or Right issues the dynamics call on the current latent (as
  a \<open>[1,16]\<close> tensor), an action tensor of shape \<open>[1,1]\<close> holding 0 or 1, and the current
  recurrent state (zeros of shape \<open>[2,1,128]\<close> when absent), and changes nothing yet. When
  the call settles with its three outputs, the latent is exactly the data of
  \<open>next_latent\<close>, the recurrent state exactly the data of \<open>h1\<close> and \<open>c1\<close>, and one decode
  of the new latent is issued. The float32 store is assumed exact on 0 and 1.
\<close>

theorem advance_law:
  assumes "\<not> disabled s" and "decoderSession s = Some dec" and "lstmSession s = Some lstm"
    and "state_fits (hData s) (cData s)"
    and "fr (Num 0) = Num 0" and "fr (Num 1) = Num 1"
  shows "\<forall>ev a. (ev = ActionLeft \<and> a = 0) \<or> (ev = ActionRight \<and> a = 1) \<longrightarrow>
    (let call = [(''latent'', float32_tensor (map (\<lambda>i. fr (js_index (latent s) i)) [0..<16]) [1, 16]),
                 (''action'', float32_tensor [Num a] [1, 1]),
                 (''h0'', float32_tensor
                    (case (hData s, cData s) of (Some h, Some c) \<Rightarrow> h | _ \<Rightarrow> replicate 256 (Num 0))
                    [2, 1, 128]),
                 (''c0'', float32_tensor
                    (case (hData s, cData s) of (Some h, Some c) \<Rightarrow> c | _ \<Rightarrow> replicate 256 (Num 0))
                    [2, 1, 128])];
         s1 = fire fr ev s;
         s2 = fire fr (StepSettled (length (stepsInFlight s))) s1
     in stepsInFlight s1 = stepsInFlight s @ [lstm call] \<and>
        latent s1 = latent s \<and> hData s1 = hData s \<and> cData s1 = cData s \<and>
        error s1 = error s \<and>
        (\<forall>outs nl h1 c1.
           lstm call = Inr outs \<and> map_of outs ''next_latent'' = Some nl \<and>
           map_of outs ''h1'' = Some h1 \<and> map_of outs ''c1'' = Some c1 \<longrightarrow>
             latent s2 = tdata nl \<and> hData s2 = Some (tdata h1) \<and> cData s2 = Some (tdata c1) \<and>
             decodesInFlight s2 = decodesInFlight s1 @
               [dec [(''z'', float32_tensor (map (\<lambda>i. fr (js_index (tdata nl) i)) [0..<16])
                              [1, 16])]]))"
proof (intro allI impI)
  fix ev :: event and a :: real
  assume ev: "(ev = ActionLeft \<and> a = 0) \<or> (ev = ActionRight \<and> a = 1)"
  define call where
    "call = [(''latent'', float32_tensor (map (\<lambda>i. fr (js_index (latent s) i)) [0..<16]) [1, 16]),
       (''action'', float32_tensor [Num a] [1, 1]),
       (''h0'', float32_tensor
          (case (hData s, cData s) of (Some h, Some c) \<Rightarrow> h | _ \<Rightarrow> replicate 256 (Num 0))
          [2, 1, 128]),
       (''c0'', float32_tensor
          (case (hData s, cData s) of (Some h, Some c) \<Rightarrow> c | _ \<Rightarrow> replicate 256 (Num 0))
          [2, 1, 128])]"
  define s1 where "s1 = fire fr ev s"
  define s2 where "s2 = fire fr (StepSettled (length (stepsInFlight s))) s1"
  have s1: "s1 = commit fr (stepWithAction fr (Num a) s)"
    using ev assms(1) by (auto simp: s1_def)
  have feeds: "lstm_feeds fr (latent s) (Num a) (hData s) (cData s) = Inr call"
    using ev assms(4,5,6) by (auto simp: call_def lstm_feeds_eq)
  have fl: "stepsInFlight s1 = stepsInFlight s @ [lstm call]" and err: "error s1 = error s"
    using step_issue_in_flight[OF assms(3) feeds] by (simp_all add: s1 commit_fields)
  have same: "latent s1 = latent s" "hData s1 = hData s" "cData s1 = cData s"
    "decoderSession s1 = Some dec"
    using assms(2) by (simp_all add: s1 commit_fields step_issue_fields)
  have settle: "latent s2 = tdata nl \<and> hData s2 = Some (tdata h1) \<and> cData s2 = Some (tdata c1) \<and>
      decodesInFlight s2 = decodesInFlight s1 @
        [dec [(''z'', float32_tensor (map (\<lambda>i. fr (js_index (tdata nl) i)) [0..<16]) [1, 16])]]"
    if "lstm call = Inr outs \<and> map_of outs ''next_latent'' = Some nl \<and>
        map_of outs ''h1'' = Some h1 \<and> map_of outs ''c1'' = Some c1" for outs nl h1 c1
    using that same(4)
    by (simp add: s2_def fl remove_nth_last step_settled_success commit_fields commit_decodes)
  show "let call = [(''latent'', float32_tensor (map (\<lambda>i. fr (js_index (latent s) i)) [0..<16]) [1, 16]),
                 (''action'', float32_tensor [Num a] [1, 1]),
                 (''h0'', float32_tensor
                    (case (hData s, cData s) of (Some h, Some c) \<Rightarrow> h | _ \<Rightarrow> replicate 256 (Num 0))
                    [2, 1, 128]),
                 (''c0'', float32_tensor
                    (case (hData s, cData s) of (Some h, Some c) \<Rightarrow> c | _ \<Rightarrow> replicate 256 (Num 0))
                    [2, 1, 128])];
         s1 = fire fr ev s;
         s2 = fire fr (StepSettled (length (stepsInFlight s))) s1
     in stepsInFlight s1 = stepsInFlight s @ [lstm call] \<and>
        latent s1 = latent s \<and> hData s1 = hData s \<and> cData s1 = cData s \<and>
        error s1 = error s \<and>
        (\<forall>outs nl h1 c1.
           lstm call = Inr outs \<and> map_of outs ''next_latent'' = Some nl \<and>
           map_of outs ''h1'' = Some h1 \<and> map_of outs ''c1'' = Some c1 \<longrightarrow>
             latent s2 = tdata nl \<and> hData s2 = Some (tdata h1) \<and> cData s2 = Some (tdata c1) \<and>
             decodesInFlight s2 = decodesInFlight s1 @
               [dec [(''z'', float32_tensor (map (\<lambda>i. fr (js_index (tdata nl) i)) [0..<16])
                              [1, 16])]])"
    unfolding Let_def call_def[symmetric] s1_def[symmetric] s2_def[symmetric]
    using fl same(1-3) err settle by blast
qed

text \<open>
  The end-to-end scenario: zero latent, no recurrent state, a click on Left, the mocked
  model answering with \<open>[1,0,...,0]\<close> and ones.
\<close>

theorem advance_law_witness:
  "\<not> disabled (ready_state plane_decoder mock_lstm) \<and>
   state_fits (hData (ready_state plane_decoder mock_lstm)) (cData (ready_state plane_decoder mock_lstm)) \<and>
   latent (ready_state plane_decoder mock_lstm) = replicate 16 (Num 0) \<and>
   hData (ready_state plane_decoder mock_lstm) = None \<and>
   cData (ready_state plane_decoder mock_lstm) = None \<and>
   stepsInFlight (fire fround_exact ActionLeft (ready_state plane_decoder mock_lstm)) =
     [mock_lstm [(''latent'', float32_tensor (replicate 16 (Num 0)) [1, 16]),
                 (''action'', float32_tensor [Num 0] [1, 1]),
                 (''h0'', float32_tensor (replicate 256 (Num 0)) [2, 1, 128]),
                 (''c0'', float32_tensor (replicate 256 (Num 0)) [2, 1, 128])]] \<and>
   latent (fire fround_exact (StepSettled 0)
            (fire fround_exact ActionLeft (ready_state plane_decoder mock_lstm))) =
     Num 1 # replicate 15 (Num 0) \<and>
   hData (fire fround_exact (StepSettled 0)
            (fire fround_exact ActionLeft (ready_state plane_decoder mock_lstm))) =
     Some (replicate 256 (Num 1)) \<and>
   cData (fire fround_exact (StepSettled 0)
            (fire fround_exact ActionLeft (ready_state plane_decoder mock_lstm))) =
     Some (replicate 256 (Num 1)) \<and>
   decodesInFlight (fire fround_exact (StepSettled 0)
            (fire fround_exact ActionLeft (ready_state plane_decoder mock_lstm))) =
     [plane_decoder [(''z'', float32_tensor (Num 1 # replicate 15 (Num 0)) [1, 16])]]"
proof -
  have ev: "(ActionLeft = ActionLeft \<and> (0::real) = 0) \<or> (ActionLeft = ActionRight \<and> (0::real) = 1)"
    by simp
  have fits: "state_fits (hData (ready_state plane_decoder mock_lstm))
      (cData (ready_state plane_decoder mock_lstm))"
    by (simp add: ready_fields state_fits_None)
  have r15: "map fround_exact (replicate 15 (Num 0)) = replicate 15 (Num 0)"
    by (simp add: fround_exact_Num)
  note law = advance_law[OF ready_fields(11) ready_fields(1) ready_fields(2) fits
      fround_exact_Num fround_exact_Num, rule_format, OF ev]
  have d0: "decodesInFlight (fire fround_exact ActionLeft (ready_state plane_decoder mock_lstm)) = []"
    by (simp add: ready_fields commit_decodes step_issue_fields)
  show ?thesis
    using law fits
    by (simp add: Let_def ready_fields tensor_data_full fround_exact_Num mock_lstm_cold
        mock_outputs float32_tensor_sel d0 r15 del: fire.simps)
qed

text \<open>
  C7, as the specification has it: in every state an edit of component \<open>i\<close> sets it,
  leaves the rest alone and triggers exactly one decode of the updated latent. The
  sliders are enabled while the models are still loading, and there \<^verbatim>\<open>runDecoder\<close>
  returns at its guard: in the initial state, setting component 3 to \<open>2.5\<close> changes the
  latent and issues no decode.
\<close>

theorem edit_before_load_issues_no_decode:
  "(3::nat) < 16 \<and> length (latent initial_state) = 16 \<and>
   decoderSession initial_state = None \<and> decodesInFlight initial_state = [] \<and>
   latent (commit fround_exact (handleSliderChange 3 (Num (5 / 2)) initial_state)) =
     (replicate 16 (Num 0))[3 := Num (5 / 2)] \<and>
   decodesInFlight (commit fround_exact (handleSliderChange 3 (Num (5 / 2)) initial_state)) = []"
  by (simp add: commit_fields commit_decodes handleSliderChange_def js_array_set_def setter_defs
      initial_state_def LATENT_DIM_def)

text \<open>
  C7, as the code has it: for an index below 16, any value and any state with a latent of
  length 16, the slider handler followed by the commit sets that component to the value,
  leaves the other components and the recurrent state as they were and starts no dynamics
  call; with the decoder session loaded it issues exactly one decode, of the whole
  updated latent, without it none.
\<close>

theorem edit_component_frame:
  assumes "i < 16" and "length (latent s) = 16"
  shows "latent (commit fr (handleSliderChange i v s)) = (latent s)[i := v] \<and>
    latent (commit fr (handleSliderChange i v s)) ! i = v \<and>
    (\<forall>j. j \<noteq> i \<longrightarrow> latent (commit fr (handleSliderChange i v s)) ! j = latent s ! j) \<and>
    hData (commit fr (handleSliderChange i v s)) = hData s \<and>
    cData (commit fr (handleSliderChange i v s)) = cData s \<and>
    stepsInFlight (commit fr (handleSliderChange i v s)) = stepsInFlight s \<and>
    (\<forall>dec. decoderSession s = Some dec \<longrightarrow>
       decodesInFlight (commit fr (handleSliderChange i v s)) =
         decodesInFlight s @ [dec [(''z'', float32_tensor (map fr ((latent s)[i := v])) [1, 16])]]) \<and>
    (decoderSession s = None \<longrightarrow>
       decodesInFlight (commit fr (handleSliderChange i v s)) = decodesInFlight s)"
  using assms
  by (simp add: handleSliderChange_def commit_def runDecoder_def setter_defs js_array_set_def
      Let_def latent_to_f32_full LATENT_DIM_def split: option.splits)

text \<open>Setting component 3 of the zero latent to \<open>2.5\<close>.\<close>

theorem edit_component_frame_witness:
  "(3::nat) < 16 \<and> length (latent (ready_state plane_decoder mock_lstm)) = 16 \<and>
   latent (ready_state plane_decoder mock_lstm) = replicate 16 (Num 0) \<and>
   latent (commit fround_exact (handleSliderChange 3 (Num (5 / 2)) (ready_state plane_decoder mock_lstm)))
     = [Num 0, Num 0, Num 0, Num (5 / 2), Num 0, Num 0, Num 0, Num 0,
        Num 0, Num 0, Num 0, Num 0, Num 0, Num 0, Num 0, Num 0] \<and>
   hData (commit fround_exact (handleSliderChange 3 (Num (5 / 2)) (ready_state plane_decoder mock_lstm)))
     = hData (ready_state plane_decoder mock_lstm) \<and>
   cData (commit fround_exact (handleSliderChange 3 (Num (5 / 2)) (ready_state plane_decoder mock_lstm)))
     = cData (ready_state plane_decoder mock_lstm) \<and>
   decodesInFlight (commit fround_exact (handleSliderChange 3 (Num (5 / 2)) (ready_state plane_decoder mock_lstm)))
     = [plane_decoder [(''z'', float32_tensor
          [Num 0, Num 0, Num 0, Num (5 / 2), Num 0, Num 0, Num 0, Num 0,
           Num 0, Num 0, Num 0, Num 0, Num 0, Num 0, Num 0, Num 0] [1, 16])]]"
proof -
  have i: "(3::nat) < 16" by simp
  have l: "length (latent (ready_state plane_decoder mock_lstm)) = 16"
    by (simp add: ready_state_plane)
  have z: "replicate 16 (Num 0) = [Num 0, Num 0, Num 0, Num 0, Num 0, Num 0, Num 0, Num 0,
        Num 0, Num 0, Num 0, Num 0, Num 0, Num 0, Num 0, Num 0]"
    by (simp add: numeral_eq_Suc)
  show ?thesis
    using edit_component_frame[OF i l, of fround_exact "Num (5 / 2)"]
    by (simp add: ready_state_plane z fround_exact_def)
qed





text \<open>
  C9. The component a slider stores is a number in \<open>[-3, 3]\<close>: the range control admits
  no other value (the handler itself does not clamp). The latent a settled dynamics call
  stores is the data of \<open>next_latent\<close> as it is, whatever its values.
\<close>

theorem slider_range_and_unclamped_step:
  "(i < length (latent s) \<longrightarrow>
      (\<exists>v. latent (fire fr (SliderInput i raw) s) ! i = Num v \<and> - 3 \<le> v \<and> v \<le> 3)) \<and>
   (k < length (stepsInFlight s) \<and> stepsInFlight s ! k = Inr outs \<and>
    map_of outs ''next_latent'' = Some nl \<longrightarrow>
      latent (fire fr (StepSettled k) s) = tdata nl)"
proof (intro conjI impI)
  assume "i < length (latent s)"
  then have "latent (fire fr (SliderInput i raw) s) ! i = Num (range_value raw)"
    by (simp add: commit_fields handleSliderChange_def setter_defs js_array_set_def)
  then show "\<exists>v. latent (fire fr (SliderInput i raw) s) ! i = Num v \<and> - 3 \<le> v \<and> v \<le> 3"
    using range_value_bounds by blast
next
  assume "k < length (stepsInFlight s) \<and> stepsInFlight s ! k = Inr outs \<and>
    map_of outs ''next_latent'' = Some nl"
  then show "latent (fire fr (StepSettled k) s) = tdata nl"
    by (simp add: commit_fields stepWithAction_settled_def setter_defs Let_def
        split: option.splits)
qed

text \<open>A slider asked for 7 stores at most 3; a model answering 5 has 5 stored.\<close>

theorem slider_range_and_unclamped_step_witness:
  "(0::nat) < length (latent (ready_state plane_decoder far_lstm)) \<and>
   (\<exists>v. latent (fire fround_exact (SliderInput 0 7) (ready_state plane_decoder far_lstm)) ! 0 = Num v \<and>
        - 3 \<le> v \<and> v \<le> 3) \<and>
   0 < length (stepsInFlight far_issued) \<and>
   latent (fire fround_exact (StepSettled 0) far_issued) = replicate 16 (Num 5) \<and>
   (3::real) < 5"
proof -
  have i: "(0::nat) < length (latent (ready_state plane_decoder far_lstm))"
    by (simp add: ready_fields)
  have k: "0 < length (stepsInFlight far_issued) \<and>
    stepsInFlight far_issued ! 0 =
      Inr [(''next_latent'', float32_tensor (replicate 16 (Num 5)) [1, 16]),
           (''h1'', float32_tensor (replicate 256 (Num 0)) [2, 1, 128]),
           (''c1'', float32_tensor (replicate 256 (Num 0)) [2, 1, 128])] \<and>
    map_of [(''next_latent'', float32_tensor (replicate 16 (Num 5)) [1, 16]),
           (''h1'', float32_tensor (replicate 256 (Num 0)) [2, 1, 128]),
           (''c1'', float32_tensor (replicate 256 (Num 0)) [2, 1, 128])] ''next_latent'' =
      Some (float32_tensor (replicate 16 (Num 5)) [1, 16])"
    by (simp add: far_issued_fields)
  from slider_range_and_unclamped_step[where i = 0 and s = "ready_state plane_decoder far_lstm"
      and fr = fround_exact and raw = 7]
  have a: "\<exists>v. latent (fire fround_exact (SliderInput 0 7) (ready_state plane_decoder far_lstm)) ! 0
      = Num v \<and> - 3 \<le> v \<and> v \<le> 3"
    using i by blast
  from slider_range_and_unclamped_step[where s = far_issued and k = 0 and fr = fround_exact
      and outs = "[(''next_latent'', float32_tensor (replicate 16 (Num 5)) [1, 16]),
           (''h1'', float32_tensor (replicate 256 (Num 0)) [2, 1, 128]),
           (''c1'', float32_tensor (replicate 256 (Num 0)) [2, 1, 128])]"
      and nl = "float32_tensor (replicate 16 (Num 5)) [1, 16]", THEN conjunct2]
  have b: "latent (fire fround_exact (StepSettled 0) far_issued) = replicate 16 (Num 5)"
    using k by (simp add: float32_tensor_sel del: fire.simps)
  show ?thesis using i a b k by simp
qed

text \<open>
  C10. In the initial state, and as long as no edit, step or reset has been asked for
  (whatever has loaded or been decoded meanwhile), the latent is sixteen zeros and the
  recurrent state is absent, which are the latent and recurrent state a reset leaves.
\<close>

theorem initial_state_is_reset:
  "latent initial_state = replicate 16 (Num 0) \<and>
   hData initial_state = None \<and> cData initial_state = None \<and>
   ((\<forall>e \<in> set evs. \<not> is_request e) \<longrightarrow>
      latent (run_events fr evs initial_state) = replicate 16 (Num 0) \<and>
      hData (run_events fr evs initial_state) = None \<and>
      cData (run_events fr evs initial_state) = None) \<and>
   latent (fire fr ResetClick s) = latent initial_state \<and>
   hData (fire fr ResetClick s) = hData initial_state \<and>
   cData (fire fr ResetClick s) = cData initial_state"
proof -
  have i: "untouched initial_state"
    by (simp add: untouched_def initial_state_def LATENT_DIM_def)
  have "untouched (run_events fr evs initial_state)" if "\<forall>e \<in> set evs. \<not> is_request e"
    using i that by (rule untouched_run)
  moreover have "latent (fire fr ResetClick s) = replicate 16 (Num 0)"
    "hData (fire fr ResetClick s) = None" "cData (fire fr ResetClick s) = None"
    by (simp_all add: commit_fields resetLatentAndHidden_def setter_defs LATENT_DIM_def)
  ultimately show ?thesis using i by (simp add: untouched_def)
qed

theorem initial_state_is_reset_witness:
  "\<not> is_request (ModelsLoaded plane_decoder mock_lstm) \<and> \<not> is_request (DecodeSettled 0) \<and>
   latent (run_events fround_exact [ModelsLoaded plane_decoder mock_lstm, DecodeSettled 0] initial_state)
     = replicate 16 (Num 0) \<and>
   hData (run_events fround_exact [ModelsLoaded plane_decoder mock_lstm, DecodeSettled 0] initial_state)
     = None \<and>
   cData (run_events fround_exact [ModelsLoaded plane_decoder mock_lstm, DecodeSettled 0] initial_state)
     = None"
proof -
  have q: "\<forall>e \<in> set [ModelsLoaded plane_decoder mock_lstm, DecodeSettled 0]. \<not> is_request e"
    by simp
  from initial_state_is_reset[where evs = "[ModelsLoaded plane_decoder mock_lstm, DecodeSettled 0]"
      and fr = fround_exact]
  show ?thesis using q by simp
qed

end
